theory Spec2Isabelle
  imports Main "HOL-Library.Word"
begin
section \<open>Python strings and integers\<close>

text \<open>
  Tags, header lines and tokens are ASCII strings. Python's \<open>str(n)\<close> of an integer is its
  decimal rendering; \<open>int(s)\<close> of a string of decimal digits is the number they denote.
\<close>

definition is_digit :: "char \<Rightarrow> bool" where
  "is_digit c = (48 \<le> (of_char c :: nat) \<and> (of_char c :: nat) \<le> 57)"

definition digit_char :: "nat \<Rightarrow> char" where
  "digit_char d = char_of (48 + d)"

definition digit_val :: "char \<Rightarrow> nat" where
  "digit_val c = of_char c - 48"

fun str_nat :: "nat \<Rightarrow> string" where
  "str_nat n = (if n < 10 then [digit_char n] else str_nat (n div 10) @ [digit_char (n mod 10)])"

declare str_nat.simps [simp del]

definition str :: "int \<Rightarrow> string" where
  "str i = (if i < 0 then CHR ''-'' # str_nat (nat (- i)) else str_nat (nat i))"

text \<open>The value of a digit string, most significant digit first (the empty string gives 0).\<close>

definition nat_of_digits :: "string \<Rightarrow> nat" where
  "nat_of_digits ds = foldl (\<lambda>acc c. 10 * acc + digit_val c) 0 ds"

section \<open>Cell-type tags and vertex counts (ply/\_ply.py)\<close>

definition cell_type_to_count_table :: "(string \<times> int) list" where
  "cell_type_to_count_table = [(''vertex'', 1), (''line'', 2), (''triangle'', 3), (''quad'', 4)]"

text \<open>\<open>re.fullmatch(r"polygon(\d+)", s)\<close>: the captured group, when the whole string matches.\<close>

definition fullmatch_polygon :: "string \<Rightarrow> string option" where
  "fullmatch_polygon s =
     (if take 7 s = ''polygon'' \<and> drop 7 s \<noteq> [] \<and> list_all is_digit (drop 7 s)
      then Some (drop 7 s) else None)"

definition cell_type_to_count :: "string \<Rightarrow> int option" where
  "cell_type_to_count cell_type =
     (case map_of cell_type_to_count_table cell_type of
        Some c \<Rightarrow> Some c
      | None \<Rightarrow>
          (case fullmatch_polygon cell_type of
             Some g \<Rightarrow> Some (int (nat_of_digits g))
           | None \<Rightarrow> None))"

definition cell_type_from_count_table :: "(int \<times> string) list" where
  "cell_type_from_count_table = map (\<lambda>(key, val). (val, key)) cell_type_to_count_table"

text \<open>\<open>_cell_type_from_count.get(count) or "polygon" + str(count)\<close>: every name in the table is
  a non-empty string, hence truthy.\<close>

definition cell_type_from_count :: "int \<Rightarrow> string" where
  "cell_type_from_count count =
     (case map_of cell_type_from_count_table count of
        Some name \<Rightarrow> (if name \<noteq> [] then name else ''polygon'' @ str count)
      | None \<Rightarrow> ''polygon'' @ str count)"

section \<open>Errors, dtypes and arrays\<close>

text \<open>Every exception of the source is a value; the string is the message where the source
  gives one.\<close>

datatype error =
    ReadError string
  | WriteError string
  | ValueError string
  | KeyError string
  | IndexError string
  | AttributeError string
  | TypeError string
  | OverflowError string

text \<open>The numpy dtypes of the two type tables, and \<open>Float16\<close> standing for the dtypes that
  neither table knows.\<close>

datatype dtype =
    Int8 | Int16 | Int32 | Int64
  | UInt8 | UInt16 | UInt32 | UInt64
  | Float16 | Float32 | Float64

fun itemsize :: "dtype \<Rightarrow> nat" where
  "itemsize Int8 = 1" | "itemsize Int16 = 2" | "itemsize Int32 = 4" | "itemsize Int64 = 8"
| "itemsize UInt8 = 1" | "itemsize UInt16 = 2" | "itemsize UInt32 = 4" | "itemsize UInt64 = 8"
| "itemsize Float16 = 2" | "itemsize Float32 = 4" | "itemsize Float64 = 8"

fun is_signed :: "dtype \<Rightarrow> bool" where
  "is_signed Int8 = True" | "is_signed Int16 = True" | "is_signed Int32 = True"
| "is_signed Int64 = True" | "is_signed _ = False"

text \<open>
  A two-dimensional array: its dtype, its shape \<open>(shape0, shape1)\<close> and its rows. An element
  of an integer dtype is its value; an element of a float dtype is kept as its stored bit
  pattern (an unsigned number of \<open>itemsize\<close> bytes), which is all that \<open>tobytes\<close> and
  \<open>frombuffer\<close> look at.
\<close>

record ndarray =
  dtype :: dtype
  shape1 :: nat
  tolist :: "int list list"

definition shape0 :: "ndarray \<Rightarrow> nat" where
  "shape0 a = length (tolist a)"

definition in_range :: "dtype \<Rightarrow> int \<Rightarrow> bool" where
  "in_range d v =
     (if is_signed d then - (2 ^ (8 * itemsize d - 1)) \<le> v \<and> v < 2 ^ (8 * itemsize d - 1)
      else 0 \<le> v \<and> v < 2 ^ (8 * itemsize d))"

definition valid_array :: "ndarray \<Rightarrow> bool" where
  "valid_array a =
     list_all (\<lambda>row. length row = shape1 a \<and> list_all (in_range (dtype a)) row) (tolist a)"

record CellBlock =
  cell_type :: string
  data :: ndarray

section \<open>Bytes\<close>

type_synonym bytes = "char list"

datatype endianness = Little | Big

fun from_bytes_le :: "bytes \<Rightarrow> nat" where
  "from_bytes_le [] = 0"
| "from_bytes_le (b # bs) = of_char b + 256 * from_bytes_le bs"

text \<open>\<open>int.from_bytes(b, byteorder)\<close>, unsigned; the empty slice gives 0.\<close>

definition from_bytes :: "endianness \<Rightarrow> bytes \<Rightarrow> nat" where
  "from_bytes e bs = (case e of Little \<Rightarrow> from_bytes_le bs | Big \<Rightarrow> from_bytes_le (rev bs))"

fun to_bytes_le :: "nat \<Rightarrow> nat \<Rightarrow> bytes" where
  "to_bytes_le 0 v = []"
| "to_bytes_le (Suc k) v = char_of (v mod 256) # to_bytes_le k (v div 256)"

definition to_bytes :: "endianness \<Rightarrow> nat \<Rightarrow> nat \<Rightarrow> bytes" where
  "to_bytes e k v = (case e of Little \<Rightarrow> to_bytes_le k v | Big \<Rightarrow> rev (to_bytes_le k v))"

text \<open>The stored bytes of one array element, and the element read from its bytes.\<close>

definition encode_value :: "dtype \<Rightarrow> endianness \<Rightarrow> int \<Rightarrow> bytes" where
  "encode_value d e v = to_bytes e (itemsize d) (nat (v mod 2 ^ (8 * itemsize d)))"

definition decode_value :: "dtype \<Rightarrow> endianness \<Rightarrow> bytes \<Rightarrow> int" where
  "decode_value d e bs =
     (let u = int (from_bytes e bs)
      in if is_signed d \<and> 2 ^ (8 * itemsize d - 1) \<le> u then u - 2 ^ (8 * itemsize d) else u)"

fun chunks :: "nat \<Rightarrow> 'a list \<Rightarrow> 'a list list" where
  "chunks n xs = (if n = 0 \<or> xs = [] then [] else take n xs # chunks n (drop n xs))"

declare chunks.simps [simp del]

section \<open>The ragged list decoder (\_read\_binary\_list)\<close>

text \<open>The generator \<open>parse_ragged\<close>: the start offset, then the offset after each of the
  \<open>num_cells\<close> rows. A slice of the buffer past its end is short or empty, as in Python.\<close>

fun parse_ragged :: "bytes \<Rightarrow> nat \<Rightarrow> nat \<Rightarrow> endianness \<Rightarrow> nat \<Rightarrow> nat \<Rightarrow> nat list" where
  "parse_ragged buffer count_itemsize data_itemsize byteorder at 0 = [at]"
| "parse_ragged buffer count_itemsize data_itemsize byteorder at (Suc num_cells) =
     at # (let count = from_bytes byteorder (take count_itemsize (drop at buffer))
           in parse_ragged buffer count_itemsize data_itemsize byteorder
                (at + (count * data_itemsize + count_itemsize)) num_cells)"

text \<open>\<open>np.diff\<close> and \<open>np.nonzero(...)[0]\<close> on one-dimensional integer arrays.\<close>

definition diff :: "int list \<Rightarrow> int list" where
  "diff xs = map (\<lambda>(a, b). b - a) (zip xs (tl xs))"

definition nonzero :: "int list \<Rightarrow> nat list" where
  "nonzero xs = filter (\<lambda>i. xs ! i \<noteq> 0) [0..<length xs]"

text \<open>The loop that turns the ids where the row length changes into (start, end) bounds.\<close>

fun block_bounds :: "nat \<Rightarrow> nat list \<Rightarrow> nat \<Rightarrow> (nat \<times> nat) list" where
  "block_bounds start [] last_id = [(start, last_id)]"
| "block_bounds start (end # ids) last_id = (start, end) # block_bounds end ids last_id"

text \<open>
  \<open>np.frombuffer(block_buffer, dtype=[("count", count_dtype), ("data", data_dtype *
  cells_per_row)])["data"]\<close>: the buffer is cut into rows of one count and \<open>cells_per_row\<close>
  items, and the items of every row are kept; the result has shape (rows, cells_per_row).
  numpy refuses a buffer whose size is not a multiple of the row size.
\<close>

definition frombuffer_data :: "bytes \<Rightarrow> dtype \<Rightarrow> dtype \<Rightarrow> endianness \<Rightarrow> nat \<Rightarrow> error + ndarray" where
  "frombuffer_data block_buffer count_dtype data_dtype e cells_per_row =
     (let row_size = itemsize count_dtype + cells_per_row * itemsize data_dtype
      in if length block_buffer mod row_size \<noteq> 0
         then Inl (ValueError ''buffer size must be a multiple of element size'')
         else Inr \<lparr>dtype = data_dtype, shape1 = cells_per_row,
                   tolist = map (\<lambda>row. map (decode_value data_dtype e)
                                   (chunks (itemsize data_dtype) (drop (itemsize count_dtype) row)))
                              (chunks row_size block_buffer)\<rparr>)"

fun read_blocks :: "bytes \<Rightarrow> dtype \<Rightarrow> dtype \<Rightarrow> endianness \<Rightarrow> nat list \<Rightarrow> int list \<Rightarrow>
    (nat \<times> nat) list \<Rightarrow> error + CellBlock list" where
  "read_blocks buffer count_dtype data_dtype e byte_starts_ends row_lengths [] = Inr []"
| "read_blocks buffer count_dtype data_dtype e byte_starts_ends row_lengths ((start, end) # bounds) =
     (if start = end
      then read_blocks buffer count_dtype data_dtype e byte_starts_ends row_lengths bounds
      else
        (let block_buffer = take (byte_starts_ends ! end - byte_starts_ends ! start)
                              (drop (byte_starts_ends ! start) buffer);
             cells_per_row = (row_lengths ! start - int (itemsize count_dtype))
                               div int (itemsize data_dtype)
         in case frombuffer_data block_buffer count_dtype data_dtype e (nat cells_per_row) of
              Inl err \<Rightarrow> Inl err
            | Inr cells \<Rightarrow>
                (case read_blocks buffer count_dtype data_dtype e byte_starts_ends row_lengths bounds of
                   Inl err \<Rightarrow> Inl err
                 | Inr blocks \<Rightarrow>
                     Inr (\<lparr>cell_type = cell_type_from_count (int (shape1 cells)), data = cells\<rparr>
                          # blocks))))"

definition read_binary_list :: "bytes \<Rightarrow> dtype \<Rightarrow> dtype \<Rightarrow> nat \<Rightarrow> endianness \<Rightarrow>
    error + (nat \<times> CellBlock list)" where
  "read_binary_list buffer count_dtype data_dtype num_cells e =
     (let count_itemsize = itemsize count_dtype;
          data_itemsize = itemsize data_dtype;
          byte_starts_ends = parse_ragged buffer count_itemsize data_itemsize e 0 num_cells;
          row_lengths = diff (map int byte_starts_ends);
          count_changed_ids = map (\<lambda>i. i + 1) (nonzero (diff row_lengths));
          bounds = block_bounds 0 count_changed_ids (length byte_starts_ends - 1)
      in case read_blocks buffer count_dtype data_dtype e byte_starts_ends row_lengths bounds of
           Inl err \<Rightarrow> Inl err
         | Inr blocks \<Rightarrow> Inr (last byte_starts_ends, blocks))"
section \<open>Records, runs and blocks: what the decoder is specified to do\<close>

text \<open>
  The layout of one record: the count in \<open>itemsize count_dtype\<close> bytes, then that many items of
  \<open>itemsize data_dtype\<close> bytes each. A record is valid when its count fits the count field and
  its items fit the data dtype.
\<close>

definition encode_row :: "endianness \<Rightarrow> dtype \<Rightarrow> dtype \<Rightarrow> int list \<Rightarrow> bytes" where
  "encode_row e count_dtype data_dtype row =
     to_bytes e (itemsize count_dtype) (length row) @ concat (map (encode_value data_dtype e) row)"

definition valid_row :: "dtype \<Rightarrow> dtype \<Rightarrow> int list \<Rightarrow> bool" where
  "valid_row count_dtype data_dtype row =
     (length row < 256 ^ itemsize count_dtype \<and> list_all (in_range data_dtype) row)"

text \<open>The maximal consecutive runs of rows of equal length, in the order of the rows.\<close>

function runs :: "'a list list \<Rightarrow> 'a list list list" where
  "runs [] = []"
| "runs (r # rs) =
     (r # takeWhile (\<lambda>x. length x = length r) rs)
     # runs (dropWhile (\<lambda>x. length x = length r) rs)"
  by pat_completeness auto
termination
  by (relation "measure length") (simp_all add: le_imp_less_Suc length_dropWhile_le)

text \<open>The block of one run: the tag of its row length, and its rows.\<close>

definition block_of :: "dtype \<Rightarrow> int list list \<Rightarrow> CellBlock" where
  "block_of data_dtype run =
     \<lparr>cell_type = cell_type_from_count (int (length (hd run))),
      data = \<lparr>dtype = data_dtype, shape1 = length (hd run), tolist = run\<rparr>\<rparr>"

text \<open>The row boundaries of a list of records that starts at offset \<open>at\<close>, and the ids at
  which the row length changes.\<close>

fun offsets :: "nat \<Rightarrow> nat \<Rightarrow> nat \<Rightarrow> 'a list list \<Rightarrow> nat list" where
  "offsets cs ds at [] = [at]"
| "offsets cs ds at (r # rs) = at # offsets cs ds (at + (length r * ds + cs)) rs"

definition changed_ids :: "int list \<Rightarrow> nat list" where
  "changed_ids row_lengths = map (\<lambda>i. i + 1) (nonzero (diff row_lengths))"

text \<open>A buffer of six records of lengths 3, 3, 3, 4, 4, 5.\<close>

definition example_records :: "int list list" where
  "example_records =
     [[0, 1, 2], [0, 2, 3], [0, 3, 4], [4, 5, 6, 7], [5, 6, 7, 8], [0, 1, 5, 6, 4]]"

definition example_buffer :: bytes where
  "example_buffer = concat (map (encode_row Little UInt8 Int32) example_records)"

definition blocks_of :: "error + (nat \<times> CellBlock list) \<Rightarrow> CellBlock list" where
  "blocks_of res = (case res of Inl err \<Rightarrow> [] | Inr (n, blocks) \<Rightarrow> blocks)"

definition tags :: "CellBlock list \<Rightarrow> string list" where
  "tags blocks = map cell_type blocks"

definition row_counts :: "CellBlock list \<Rightarrow> nat list" where
  "row_counts blocks = map (\<lambda>b. shape0 (data b)) blocks"
section \<open>The mesh\<close>

text \<open>A point-data array: one-dimensional with its values, or of more dimensions (which the
  PLY writer skips, so only its dtype is kept).\<close>

datatype point_array = Array1 dtype "int list" | ArrayND dtype

text \<open>A cell-data entry as the readers build it: a scalar, the blocks of a list property,
  or one array per row length.\<close>

datatype cell_datum = Scalar int | Blocks "CellBlock list" | Arrays "(dtype \<times> int list) list"

record Mesh =
  points :: ndarray
  cells :: "CellBlock list"
  point_data :: "(string \<times> point_array) list"
  cell_data :: "(string \<times> cell_datum) list"

section \<open>More of Python's strings: strip, lower, split, int\<close>

text \<open>A character is its code point, below 256. The whitespace of \<open>str.strip\<close> and
  \<open>str.split\<close> among these code points.\<close>

definition is_space :: "char \<Rightarrow> bool" where
  "is_space c = ((9 \<le> (of_char c :: nat) \<and> (of_char c :: nat) \<le> 13) \<or>
                 (28 \<le> (of_char c :: nat) \<and> (of_char c :: nat) \<le> 32) \<or>
                 (of_char c :: nat) = 133 \<or> (of_char c :: nat) = 160)"

definition strip :: "string \<Rightarrow> string" where
  "strip s = rev (dropWhile is_space (rev (dropWhile is_space s)))"

definition lower_char :: "char \<Rightarrow> char" where
  "lower_char c =
     (if 65 \<le> (of_char c :: nat) \<and> (of_char c :: nat) \<le> 90 then char_of (of_char c + 32 :: nat)
      else c)"

definition lower :: "string \<Rightarrow> string" where
  "lower s = map lower_char s"

text \<open>\<open>s.split(sep)\<close> for a one-character separator: always at least one piece.\<close>

fun split :: "char \<Rightarrow> string \<Rightarrow> string list" where
  "split sep [] = [[]]"
| "split sep (c # s) =
     (if c = sep then [] # split sep s
      else (case split sep s of p # ps \<Rightarrow> (c # p) # ps | [] \<Rightarrow> [[c]]))"

text \<open>The digits of a decimal literal, in which single underscores may separate digits.\<close>

fun strip_underscores :: "string \<Rightarrow> string option" where
  "strip_underscores [] = None"
| "strip_underscores [c] = (if is_digit c then Some [c] else None)"
| "strip_underscores (c # d # r) =
     (if is_digit c
      then (if d = CHR ''_'' then map_option (Cons c) (strip_underscores r)
            else map_option (Cons c) (strip_underscores (d # r)))
      else None)"

text \<open>\<open>int(s)\<close> of a string: surrounding whitespace, an optional sign, decimal digits;
  \<open>None\<close> stands for the ValueError. The whitespace that \<open>int\<close> skips is tab to carriage
  return, the blank, and the code points 0x85 and 0xA0; unlike \<open>str.strip\<close> it does not skip
  0x1C to 0x1F.\<close>

definition is_int_space :: "char \<Rightarrow> bool" where
  "is_int_space c = ((9 \<le> (of_char c :: nat) \<and> (of_char c :: nat) \<le> 13) \<or>
                     (of_char c :: nat) = 32 \<or> (of_char c :: nat) = 133 \<or>
                     (of_char c :: nat) = 160)"

definition int_strip :: "string \<Rightarrow> string" where
  "int_strip s = rev (dropWhile is_int_space (rev (dropWhile is_int_space s)))"

definition py_int :: "string \<Rightarrow> int option" where
  "py_int s =
     (case int_strip s of
        [] \<Rightarrow> None
      | c # r \<Rightarrow>
          if c = CHR ''-'' then map_option (\<lambda>ds. - int (nat_of_digits ds)) (strip_underscores r)
          else if c = CHR ''+'' then map_option (\<lambda>ds. int (nat_of_digits ds)) (strip_underscores r)
          else map_option (\<lambda>ds. int (nat_of_digits ds)) (strip_underscores (c # r)))"

section \<open>Paths and sources\<close>

text \<open>
  Modelled from the spec: the source or destination of the entry points is "a path or an
  already-open readable byte stream"; \<open>is_buffer\<close> (of the module \<open>_files\<close>, which is not part of
  the sources at hand) tells the two apart. A buffer is modelled by its content.
\<close>

datatype source = Buffer bytes | Path string

fun is_buffer :: "source \<Rightarrow> bool" where
  "is_buffer (Buffer b) = True"
| "is_buffer (Path p) = False"

text \<open>\<open>str(filename)\<close>, as the messages show it; a buffer is shown by a fixed text.\<close>

fun source_str :: "source \<Rightarrow> string" where
  "source_str (Path p) = p"
| "source_str (Buffer b) = ''<buffer>''"

text \<open>The file system: the content of every path that exists.\<close>

type_synonym filesystem = "string \<rightharpoonup> bytes"

text \<open>\<open>pathlib\<close>: the name is the last component of the path, and the suffixes are the
  dot-separated endings of the name.\<close>

definition path_name :: "string \<Rightarrow> string" where
  "path_name p =
     (case filter (\<lambda>part. part \<noteq> [] \<and> part \<noteq> ''.'') (split CHR ''/'' p) of
        [] \<Rightarrow> []
      | parts \<Rightarrow> last parts)"

definition suffixes :: "string \<Rightarrow> string list" where
  "suffixes p =
     (let name = path_name p
      in if name \<noteq> [] \<and> last name = CHR ''.'' then []
         else map (\<lambda>suffix. CHR ''.'' # suffix)
                (tl (split CHR ''.'' (dropWhile (\<lambda>c. c = CHR ''.'') name))))"

section \<open>The registry and the entry points (\_helpers.py)\<close>

text \<open>The three module-level dictionaries. Readers and writers are functions; their types
  are left open here.\<close>

record ('r, 'w) registry =
  extension_to_filetype :: "string \<rightharpoonup> string"
  reader_map :: "string \<rightharpoonup> 'r"
  writer_map :: "string \<rightharpoonup> 'w"

definition empty_registry :: "('r, 'w) registry" where
  "empty_registry = \<lparr>extension_to_filetype = Map.empty, reader_map = Map.empty,
     writer_map = Map.empty\<rparr>"

definition register :: "string \<Rightarrow> string list \<Rightarrow> 'r option \<Rightarrow> (string \<times> 'w) list \<Rightarrow>
    ('r, 'w) registry \<Rightarrow> ('r, 'w) registry" where
  "register name extensions reader new_writers reg =
     \<lparr>extension_to_filetype =
        foldl (\<lambda>m ext. m(ext \<mapsto> name)) (extension_to_filetype reg) extensions,
      reader_map = (case reader of None \<Rightarrow> reader_map reg
                    | Some r \<Rightarrow> (reader_map reg)(name \<mapsto> r)),
      writer_map = foldl (\<lambda>m (k, w). m(k \<mapsto> w)) (writer_map reg) new_writers\<rparr>"

text \<open>The loop of \<open>_filetype_from_path\<close> over the reversed suffixes, with its two variables.\<close>

fun filetype_loop :: "(string \<rightharpoonup> string) \<Rightarrow> string list \<Rightarrow> string \<Rightarrow> string option \<Rightarrow>
    string \<times> string option" where
  "filetype_loop table [] ext out = (ext, out)"
| "filetype_loop table (suffix # rest) ext out =
     (let ext' = lower (suffix @ ext)
      in filetype_loop table rest ext'
           (case table ext' of Some filetype \<Rightarrow> Some filetype | None \<Rightarrow> out))"

definition filetype_from_path :: "(string \<rightharpoonup> string) \<Rightarrow> string \<Rightarrow> error + string" where
  "filetype_from_path table path =
     (case filetype_loop table (rev (suffixes path)) [] None of
        (ext, None) \<Rightarrow>
          Inl (ReadError (''Could not deduce file format from extension '' @ [CHR 0x27] @ ext
                          @ [CHR 0x27] @ ''.''))
      | (ext, Some out) \<Rightarrow> Inr out)"

text \<open>\<open>read\<close> of \<open>_helpers\<close> (here \<open>meshio_read\<close>, as the package exports it): a reader is called with the source (and the file system it opens it in).\<close>

definition meshio_read :: "filesystem \<Rightarrow> (source \<Rightarrow> error + 'm, 'w) registry \<Rightarrow> source \<Rightarrow> string option \<Rightarrow>
    error + 'm" where
  "meshio_read fs reg filename file_format =
     (let resolved =
        (if is_buffer filename then
           (case file_format of
              None \<Rightarrow> Inl (ReadError ''File format must be given if buffer is used'')
            | Some fmt \<Rightarrow>
                if fmt = ''tetgen''
                then Inl (ReadError (''tetgen format is spread across multiple files ''
                                     @ ''and so cannot be read from a buffer''))
                else Inr (fmt, ''Unknown file format '' @ [CHR 0x27] @ fmt @ [CHR 0x27]))
         else
           (if fs (source_str filename) = None
            then Inl (ReadError (''File '' @ source_str filename @ '' not found.''))
            else
              (case (if file_format = None \<or> file_format = Some []
                     then filetype_from_path (extension_to_filetype reg) (source_str filename)
                     else Inr (the file_format)) of
                 Inl err \<Rightarrow> Inl err
               | Inr fmt \<Rightarrow>
                   Inr (fmt, ''Unknown file format '' @ [CHR 0x27] @ fmt @ [CHR 0x27] @ '' of ''
                             @ [CHR 0x27] @ source_str filename @ [CHR 0x27] @ ''.''))))
      in case resolved of
           Inl err \<Rightarrow> Inl err
         | Inr (fmt, msg) \<Rightarrow>
             (case reader_map reg fmt of
                None \<Rightarrow> Inl (ReadError msg)
              | Some reader \<Rightarrow> reader filename))"

text \<open>
  The sanity check of \<open>write\<close> on the cell blocks. The table \<open>num_nodes_per_cell\<close> (of the module
  \<open>_common\<close>) is a parameter. The messages leave out the shape that the source prints.
\<close>

definition check_block :: "(string \<rightharpoonup> nat) \<Rightarrow> CellBlock \<Rightarrow> error option" where
  "check_block num_nodes_per_cell block =
     (let key = cell_type block; value = data block
      in if take 7 key = ''polygon'' then
           (case py_int (drop 7 key) of
              None \<Rightarrow>
                Some (ValueError (''Key '' @ [CHR 0x22] @ key @ [CHR 0x22] @ '' malformed. ''
                  @ ''Should be '' @ [CHR 0x22] @ ''polygonN'' @ [CHR 0x22]
                  @ '', where N is the number of points per polygon.''))
            | Some n \<Rightarrow>
                if int (shape1 value) \<noteq> n
                then Some (WriteError (''Polygon data array doesn'' @ [CHR 0x27]
                             @ ''t match the key '' @ [CHR 0x22] @ key @ [CHR 0x22]))
                else None)
         else
           (case num_nodes_per_cell key of
              Some nodes \<Rightarrow>
                if shape1 value \<noteq> nodes
                then Some (WriteError (''Unexpected cells array shape for '' @ key @ '' cells.''))
                else None
            | None \<Rightarrow> None))"

fun check_cells :: "(string \<rightharpoonup> nat) \<Rightarrow> CellBlock list \<Rightarrow> error option" where
  "check_cells num_nodes_per_cell [] = None"
| "check_cells num_nodes_per_cell (block # blocks) =
     (case check_block num_nodes_per_cell block of
        Some err \<Rightarrow> Some err
      | None \<Rightarrow> check_cells num_nodes_per_cell blocks)"

text \<open>\<open>write\<close> of \<open>_helpers\<close> (here \<open>meshio_write\<close>): \<open>Inl\<close> is an error of this layer; \<open>Inr\<close> is what the writer does when it is called
  with the destination, the mesh and the options.\<close>

definition meshio_write :: "(string \<rightharpoonup> nat) \<Rightarrow> ('r, source \<Rightarrow> Mesh \<Rightarrow> 'kw \<Rightarrow> 'res) registry \<Rightarrow> source \<Rightarrow>
    Mesh \<Rightarrow> string option \<Rightarrow> 'kw \<Rightarrow> error + 'res" where
  "meshio_write num_nodes_per_cell reg filename mesh file_format kwargs =
     (let resolved =
        (if is_buffer filename then
           (case file_format of
              None \<Rightarrow> Inl (WriteError (''File format must be supplied if '' @ [CHR 0x60] @ ''filename''
                       @ [CHR 0x60] @ '' is a buffer''))
            | Some fmt \<Rightarrow>
                if fmt = ''tetgen''
                then Inl (WriteError (''tetgen format is spread across multiple files, ''
                                      @ ''and so cannot be written to a buffer''))
                else Inr fmt)
         else
           (if file_format = None \<or> file_format = Some []
            then filetype_from_path (extension_to_filetype reg) (source_str filename)
            else Inr (the file_format)))
      in case resolved of
           Inl err \<Rightarrow> Inl err
         | Inr fmt \<Rightarrow>
             (case writer_map reg fmt of
                None \<Rightarrow> Inl (WriteError (''Unknown format '' @ [CHR 0x27] @ fmt @ [CHR 0x27] @ ''.''))
              | Some writer \<Rightarrow>
                  (case check_cells num_nodes_per_cell (cells mesh) of
                     Some err \<Rightarrow> Inl err
                   | None \<Rightarrow> Inr (writer filename mesh kwargs))))"

text \<open>
  Format resolution in the words of its specification: the accumulated extensions of a path,
  the longest first, each in lower case; the format is that of the first one registered.
\<close>

definition accumulated :: "string list \<Rightarrow> string list" where
  "accumulated sfx = map (\<lambda>k. lower (concat (drop k sfx))) [0..<length sfx]"

definition resolve_format :: "(string \<rightharpoonup> string) \<Rightarrow> string \<Rightarrow> error + string" where
  "resolve_format table path =
     (case find (\<lambda>ext. table ext \<noteq> None) (accumulated (suffixes path)) of
        None \<Rightarrow>
          Inl (ReadError (''Could not deduce file format from extension '' @ [CHR 0x27]
                          @ lower (concat (suffixes path)) @ [CHR 0x27] @ ''.''))
      | Some ext \<Rightarrow> Inr (the (table ext)))"

fun is_WriteError :: "error \<Rightarrow> bool" where
  "is_WriteError (WriteError m) = True"
| "is_WriteError _ = False"

fun is_ValueError :: "error \<Rightarrow> bool" where
  "is_ValueError (ValueError m) = True"
| "is_ValueError _ = False"

fun is_ReadError :: "error \<Rightarrow> bool" where
  "is_ReadError (ReadError m) = True"
| "is_ReadError _ = False"

text \<open>Example blocks and meshes.\<close>

definition example_block :: "string \<Rightarrow> nat \<Rightarrow> CellBlock" where
  "example_block tag width =
     \<lparr>cell_type = tag, data = \<lparr>dtype = Int32, shape1 = width, tolist = [map int [0..<width]]\<rparr>\<rparr>"

definition example_mesh :: "CellBlock list \<Rightarrow> Mesh" where
  "example_mesh blocks =
     \<lparr>points = \<lparr>dtype = Float64, shape1 = 3, tolist = []\<rparr>, cells = blocks, point_data = [],
      cell_data = []\<rparr>"

section \<open>The PLY writer (ply/\_ply.py, write)\<close>

text \<open>
  What the codec takes from its surroundings: the byte order of the host, the version of the
  package and the time of the call (both go into the comment line), and the numpy functions
  that are left open here: how an element of a float dtype is printed and parsed, which
  element \<open>np.full\<close> stores for a count in an array of a float dtype, the dtype and the
  conversion of elements when \<open>np.column_stack\<close> joins columns of different dtypes, and
  \<open>np.genfromtxt\<close> (from the rest of the file, the number of rows and the fields, to the
  column of every field and the rest of the file).
\<close>

record environment =
  sys_byteorder :: endianness
  meshio_version :: string
  now_isoformat :: string
  format_float :: "dtype \<Rightarrow> int \<Rightarrow> string"
  parse_float :: "dtype \<Rightarrow> string \<Rightarrow> error + int"
  full_float :: "dtype \<Rightarrow> nat \<Rightarrow> int"
  result_type :: "dtype list \<Rightarrow> dtype"
  convert :: "dtype \<Rightarrow> dtype \<Rightarrow> int \<Rightarrow> int"
  genfromtxt :: "bytes \<Rightarrow> nat \<Rightarrow> (string \<times> dtype) list \<Rightarrow>
    error + ((string \<times> dtype \<times> int list) list \<times> bytes)"

text \<open>
  What a call of the writer leaves behind: the bytes written to the file, the warnings raised,
  the cell blocks of the caller's mesh (the writer replaces blocks in \<open>mesh.cells\<close>), and the
  exception that ended the call, if any.
\<close>

record write_result =
  written :: bytes
  warnings :: "string list"
  cells_after :: "CellBlock list"
  raised :: "error option"

definition line :: "string \<Rightarrow> bytes" where
  "line s = s @ [CHR 0x0A]"

fun join :: "string \<Rightarrow> string list \<Rightarrow> string" where
  "join sep [] = []"
| "join sep [x] = x"
| "join sep (x # y # xs) = x @ sep @ join sep (y # xs)"

definition ply_to_numpy_dtype :: "(string \<times> dtype) list" where
  "ply_to_numpy_dtype =
     [(''char'', Int8), (''uchar'', UInt8), (''short'', Int16), (''ushort'', UInt16),
      (''int'', Int32), (''int8'', Int8), (''int32'', Int32), (''int64'', Int64),
      (''uint'', UInt32), (''uint8'', UInt8), (''uint16'', UInt16), (''uint32'', UInt32),
      (''uint64'', UInt64), (''float'', Float32), (''float32'', Float32),
      (''float64'', Float64), (''double'', Float64)]"

text \<open>The dictionary comprehension keeps, for every dtype, the last name of the table.\<close>

definition numpy_to_ply_dtype :: "dtype \<Rightarrow> string option" where
  "numpy_to_ply_dtype = map_of (rev (map (\<lambda>(k, v). (v, k)) ply_to_numpy_dtype))"

fun type_name_table :: "dtype \<Rightarrow> string option" where
  "type_name_table Int8 = Some ''int8''"
| "type_name_table Int16 = Some ''int16''"
| "type_name_table Int32 = Some ''int32''"
| "type_name_table Int64 = Some ''int64''"
| "type_name_table UInt8 = Some ''uint8''"
| "type_name_table UInt16 = Some ''uint16''"
| "type_name_table UInt32 = Some ''uint32''"
| "type_name_table UInt64 = Some ''uint64''"
| "type_name_table Float32 = Some ''float''"
| "type_name_table Float64 = Some ''double''"
| "type_name_table Float16 = None"

definition dim_names :: "string list" where
  "dim_names = [''x'', ''y'', ''z'']"

text \<open>The loop over the coordinate columns: the lines written, and the exception if one ends
  the loop.\<close>

fun write_dims :: "dtype \<Rightarrow> nat list \<Rightarrow> bytes \<times> error option" where
  "write_dims d [] = ([], None)"
| "write_dims d (k # ks) =
     (case type_name_table d of
        None \<Rightarrow> ([], Some (KeyError ''dtype''))
      | Some type_name \<Rightarrow>
          if length dim_names \<le> k then ([], Some (IndexError ''list index out of range''))
          else (case write_dims d ks of
                  (out, err) \<Rightarrow>
                    (line (''property '' @ type_name @ '' '' @ dim_names ! k) @ out, err)))"

text \<open>The loop over the point data: the lines written, the warnings, the arrays kept in
  \<open>pd\<close>, and the exception if one ends the loop.\<close>

fun write_point_data :: "(string \<times> point_array) list \<Rightarrow>
    bytes \<times> string list \<times> (dtype \<times> int list) list \<times> error option" where
  "write_point_data [] = ([], [], [], None)"
| "write_point_data ((key, ArrayND d) # items) =
     (case write_point_data items of
        (out, warns, pd, err) \<Rightarrow>
          (out,
           (''PLY writer doesn'' @ [CHR 0x27]
              @ ''t support multidimensional point data yet. Skipping '' @ key @ ''.'') # warns,
           pd, err))"
| "write_point_data ((key, Array1 d values) # items) =
     (case type_name_table d of
        None \<Rightarrow> ([], [], [], Some (KeyError ''dtype''))
      | Some type_name \<Rightarrow>
          (case write_point_data items of
             (out, warns, pd, err) \<Rightarrow>
               (line (''property '' @ type_name @ '' '' @ key) @ out, warns, (d, values) # pd,
                err)))"

text \<open>\<open>if cell_type_to_count(cell_type):\<close> holds for a count that is neither \<open>None\<close> nor 0.\<close>

definition counts_as_face :: "string \<Rightarrow> bool" where
  "counts_as_face tag = (case cell_type_to_count tag of None \<Rightarrow> False | Some c \<Rightarrow> c \<noteq> 0)"

fun count_cells :: "CellBlock list \<Rightarrow> nat" where
  "count_cells [] = 0"
| "count_cells (c # cs) =
     (if counts_as_face (cell_type c) then shape0 (data c) else 0) + count_cells cs"

text \<open>\<open>astype(np.int32)\<close> keeps the low 32 bits of every element.\<close>

definition astype_int32 :: "ndarray \<Rightarrow> ndarray" where
  "astype_int32 a =
     \<lparr>dtype = Int32, shape1 = shape1 a,
      tolist = map (map (\<lambda>v. (v + 2 ^ 31) mod 2 ^ 32 - 2 ^ 31)) (tolist a)\<rparr>"

definition cast_down :: "CellBlock list \<Rightarrow> CellBlock list" where
  "cast_down blocks =
     map (\<lambda>c. if dtype (data c) = Int64
               then \<lparr>cell_type = cell_type c, data = astype_int32 (data c)\<rparr> else c) blocks"

definition has_cast :: "CellBlock list \<Rightarrow> bool" where
  "has_cast blocks = list_ex (\<lambda>c. dtype (data c) = Int64) blocks"

definition cast_warning :: string where
  "cast_warning = ''PLY doesn'' @ [CHR 0x27] @ ''t support 64-bit integers. Casting down to 32-bit.''"

text \<open>The loop that compares the dtype of every block with that of the first.\<close>

fun dtypes_equal :: "dtype \<Rightarrow> CellBlock list \<Rightarrow> bool" where
  "dtypes_equal cell_dtype [] = True"
| "dtypes_equal cell_dtype (c # cs) = (dtype (data c) = cell_dtype \<and> dtypes_equal cell_dtype cs)"

text \<open>The face element of the header, written when there are cells to count: the lines
  written, the warnings, the cell blocks of the mesh afterwards, the exception if any.\<close>

definition write_face_header :: "CellBlock list \<Rightarrow>
    bytes \<times> string list \<times> CellBlock list \<times> error option" where
  "write_face_header blocks =
     (let num_cells = count_cells blocks
      in if 0 < num_cells then
           (let out = line (''element face '' @ str (int num_cells));
                blocks' = cast_down blocks;
                warns = (if has_cast blocks then [cast_warning] else [])
            in case blocks' of
                 [] \<Rightarrow> (out, warns, blocks', None)
               | c # cs \<Rightarrow>
                   if \<not> dtypes_equal (dtype (data c)) blocks'
                   then (out, warns, blocks', Some (WriteError []))
                   else (case numpy_to_ply_dtype (dtype (data c)) of
                           None \<Rightarrow> (out, warns, blocks', Some (KeyError ''dtype''))
                         | Some ply_type \<Rightarrow>
                             (out @ line (''property list uint8 '' @ ply_type @ '' vertex_indices''),
                              warns, blocks', None)))
         else ([], [], blocks, None))"

text \<open>\<open>np.rec.fromarrays\<close>: one record per index, with one field per array; the arrays must
  have one length.\<close>

definition fromarrays :: "(dtype \<times> int list) list \<Rightarrow> error + (dtype \<times> int) list list" where
  "fromarrays arrays =
     (case arrays of
        [] \<Rightarrow> Inl (IndexError ''list index out of range'')
      | (d, xs) # rest \<Rightarrow>
          if list_ex (\<lambda>(d', ys). length ys \<noteq> length xs) rest
          then Inl (ValueError ''array-shape mismatch'')
          else Inr (map (\<lambda>i. map (\<lambda>(d', ys). (d', ys ! i)) arrays) [0..<length xs]))"

definition tobytes :: "endianness \<Rightarrow> (dtype \<times> int) list list \<Rightarrow> bytes" where
  "tobytes e records = concat (map (\<lambda>r. concat (map (\<lambda>(d, v). encode_value d e v) r)) records)"

text \<open>The columns of a two-dimensional array (\<open>a.T\<close>, iterated).\<close>

definition columns :: "ndarray \<Rightarrow> (dtype \<times> int list) list" where
  "columns a = map (\<lambda>j. (dtype a, map (\<lambda>row. row ! j) (tolist a))) [0..<shape1 a]"

definition skip_warning :: string where
  "skip_warning = ''cell_type '' @ [CHR 0x22] @ ''{}'' @ [CHR 0x22]
      @ '' is not supported by ply format - skipping''"

text \<open>The binary body: the loop over the cell blocks skips, with a warning, every block whose
  tag has no count.\<close>

fun write_binary_cells :: "endianness \<Rightarrow> CellBlock list \<Rightarrow> bytes \<times> string list \<times> error option" where
  "write_binary_cells e [] = ([], [], None)"
| "write_binary_cells e (c # cs) =
     (if cell_type_to_count (cell_type c) = None
      then (case write_binary_cells e cs of (out, warns, err) \<Rightarrow> (out, skip_warning # warns, err))
      else
        (case fromarrays ((UInt8, replicate (shape0 (data c)) (int (shape1 (data c) mod 256)))
                          # columns (data c)) of
           Inl err \<Rightarrow> ([], [], Some err)
         | Inr records \<Rightarrow>
             (case write_binary_cells e cs of
                (out, warns, err) \<Rightarrow> (tobytes e records @ out, warns, err))))"

definition write_binary_body :: "endianness \<Rightarrow> ndarray \<Rightarrow> (dtype \<times> int list) list \<Rightarrow> CellBlock list \<Rightarrow>
    bytes \<times> string list \<times> error option" where
  "write_binary_body e pts pd blocks =
     (case fromarrays (columns pts @ pd) of
        Inl err \<Rightarrow> ([], [], Some err)
      | Inr records \<Rightarrow>
          (case write_binary_cells e blocks of
             (out, warns, err) \<Rightarrow> (tobytes e records @ out, warns, err)))"

text \<open>The ASCII body. \<open>"{}".format\<close> prints an integer element in decimal and a float element
  as numpy prints it.\<close>

definition is_float :: "dtype \<Rightarrow> bool" where
  "is_float d = (d = Float16 \<or> d = Float32 \<or> d = Float64)"

definition format_element :: "environment \<Rightarrow> dtype \<times> int \<Rightarrow> string" where
  "format_element env = (\<lambda>(d, v). if is_float d then format_float env d v else str v)"

definition format_rows :: "environment \<Rightarrow> (dtype \<times> int) list list \<Rightarrow> bytes" where
  "format_rows env records =
     join [CHR 0x0A] (map (\<lambda>r. join '' '' (map (format_element env) r)) records) @ [CHR 0x0A]"

text \<open>\<open>np.full(rows, width, dtype=data.dtype)\<close> stores the count as an element of the dtype of
  the block.\<close>

definition full_value :: "environment \<Rightarrow> dtype \<Rightarrow> nat \<Rightarrow> int" where
  "full_value env d width =
     (if is_float d then full_float env d width
      else if is_signed d
      then (int width + 2 ^ (8 * itemsize d - 1)) mod 2 ^ (8 * itemsize d) - 2 ^ (8 * itemsize d - 1)
      else int width mod 2 ^ (8 * itemsize d))"

text \<open>The loop over the cell blocks in ASCII mode writes every block.\<close>

fun write_ascii_cells :: "environment \<Rightarrow> CellBlock list \<Rightarrow> bytes" where
  "write_ascii_cells env [] = []"
| "write_ascii_cells env (c # cs) =
     format_rows env
       (map (\<lambda>row. (dtype (data c), full_value env (dtype (data c)) (shape1 (data c)))
                    # map (\<lambda>v. (dtype (data c), v)) row)
          (tolist (data c)))
     @ write_ascii_cells env cs"

definition write_ascii_body :: "environment \<Rightarrow> ndarray \<Rightarrow> (dtype \<times> int list) list \<Rightarrow> CellBlock list \<Rightarrow>
    bytes \<times> string list \<times> error option" where
  "write_ascii_body env pts pd blocks =
     (case fromarrays (columns pts @ pd) of
        Inl err \<Rightarrow> ([], [], Some err)
      | Inr records \<Rightarrow>
          if records = [] then ([], [], Some (IndexError ''index 0 is out of bounds''))
          else (format_rows env records @ write_ascii_cells env blocks, [], None))"

definition endian_name :: "endianness \<Rightarrow> string" where
  "endian_name e = (case e of Little \<Rightarrow> ''little'' | Big \<Rightarrow> ''big'')"

definition ply_write :: "environment \<Rightarrow> Mesh \<Rightarrow> bool \<Rightarrow> write_result" where
  "ply_write env mesh binary =
     (let out0 = line ''ply''
            @ (if binary
               then line (''format binary_'' @ endian_name (sys_byteorder env) @ ''_endian 1.0'')
               else line ''format ascii 1.0'')
            @ line (''comment Created by meshio v'' @ meshio_version env @ '', ''
                    @ now_isoformat env)
            @ line (''element vertex '' @ str (int (shape0 (points mesh))))
      in case write_dims (dtype (points mesh)) [0..<shape1 (points mesh)] of
           (out1, Some err) \<Rightarrow>
             \<lparr>written = out0 @ out1, warnings = [], cells_after = cells mesh, raised = Some err\<rparr>
         | (out1, None) \<Rightarrow>
             (case write_point_data (point_data mesh) of
                (out2, warns2, pd, Some err) \<Rightarrow>
                  \<lparr>written = out0 @ out1 @ out2, warnings = warns2, cells_after = cells mesh,
                   raised = Some err\<rparr>
              | (out2, warns2, pd, None) \<Rightarrow>
                  (case write_face_header (cells mesh) of
                     (out3, warns3, blocks, Some err) \<Rightarrow>
                       \<lparr>written = out0 @ out1 @ out2 @ out3, warnings = warns2 @ warns3,
                        cells_after = blocks, raised = Some err\<rparr>
                   | (out3, warns3, blocks, None) \<Rightarrow>
                       (case (if binary
                              then write_binary_body (sys_byteorder env) (points mesh) pd blocks
                              else write_ascii_body env (points mesh) pd blocks) of
                          (out5, warns5, err) \<Rightarrow>
                            \<lparr>written = out0 @ out1 @ out2 @ out3 @ line ''end_header'' @ out5,
                             warnings = warns2 @ warns3 @ warns5, cells_after = blocks,
                             raised = err\<rparr>))))"

section \<open>The PLY reader (ply/\_ply.py, read\_buffer)\<close>

text \<open>The file object is the rest of the file. \<open>readline\<close> returns the bytes up to and with the
  next newline, or what is left.\<close>

fun readline :: "bytes \<Rightarrow> bytes \<times> bytes" where
  "readline [] = ([], [])"
| "readline (c # cs) =
     (if c = CHR 0x0A then ([c], cs) else (case readline cs of (l, rest) \<Rightarrow> (c # l, rest)))"

text \<open>\<open>_next_line\<close> loops until a significant line; at the end of the file it loops forever,
  which is the value \<open>None\<close>.\<close>

partial_function (option) next_line :: "bytes \<Rightarrow> (string \<times> bytes) option" where
  "next_line f =
     (case readline f of
        (raw, rest) \<Rightarrow>
          if strip raw \<noteq> [] \<and> take 7 (strip raw) \<noteq> ''comment'' then Some (strip raw, rest)
          else next_line rest)"

declare next_line.simps [code]

text \<open>\<open>re.match(prefix + "(\\d+)", line)\<close> and \<open>int\<close> of the group.\<close>

definition match_count :: "string \<Rightarrow> string \<Rightarrow> nat option" where
  "match_count prefix ln =
     (if take (length prefix) ln = prefix \<and> takeWhile is_digit (drop (length prefix) ln) \<noteq> []
      then Some (nat_of_digits (takeWhile is_digit (drop (length prefix) ln))) else None)"

text \<open>\<open>(.+) (.+)\<close> matched against a whole string: both groups are greedy, so the string is cut
  at its last blank that leaves both groups non-empty.\<close>

definition split_last_space :: "string \<Rightarrow> (string \<times> string) option" where
  "split_last_space s =
     (case filter (\<lambda>i. s ! i = CHR '' '') (rev [1..<length s - 1]) of
        [] \<Rightarrow> None
      | i # _ \<Rightarrow> Some (take i s, drop (Suc i) s))"

text \<open>\<open>(.+) (.+) (.+)\<close>: the first group is the longest that lets the rest match.\<close>

definition split_two_spaces :: "string \<Rightarrow> (string \<times> string \<times> string) option" where
  "split_two_spaces s =
     (case filter (\<lambda>j. s ! j = CHR '' '' \<and> split_last_space (drop (Suc j) s) \<noteq> None)
             (rev [1..<length s]) of
        [] \<Rightarrow> None
      | j # _ \<Rightarrow> map_option (\<lambda>(g2, g3). (take j s, g2, g3)) (split_last_space (drop (Suc j) s)))"

definition match_property :: "string \<Rightarrow> (string \<times> string) option" where
  "match_property ln =
     (if take 9 ln = ''property '' then split_last_space (drop 9 ln) else None)"

definition match_property_list :: "string \<Rightarrow> (string \<times> string \<times> string) option" where
  "match_property_list ln =
     (if take 14 ln = ''property list '' then split_two_spaces (drop 14 ln) else None)"

text \<open>The inner loop over the property lines of the vertex element: the formats and names
  read, the first line that is no property line, and the rest of the file.\<close>

partial_function (option) vertex_properties :: "string \<Rightarrow> bytes \<Rightarrow> string list \<Rightarrow> string list \<Rightarrow>
    (error + string list \<times> string list \<times> string \<times> bytes) option" where
  "vertex_properties ln f formats names =
     (if take 8 ln = ''property'' then
        (case match_property ln of
           None \<Rightarrow> Some (Inl (AttributeError ''groups''))
         | Some (fmt, name) \<Rightarrow>
             (case next_line f of
                None \<Rightarrow> None
              | Some (ln', f') \<Rightarrow> vertex_properties ln' f' (formats @ [fmt]) (names @ [name])))
      else Some (Inr (formats, names, ln, f)))"

declare vertex_properties.simps [code]

text \<open>The dtype of a face property: a name, or the count and data names of a list.\<close>

datatype property_dtype = ScalarType string | ListType string string

partial_function (option) face_properties :: "string \<Rightarrow> bytes \<Rightarrow> string list \<Rightarrow>
    property_dtype list \<Rightarrow> (error + string list \<times> property_dtype list \<times> string \<times> bytes) option" where
  "face_properties ln f names dtypes =
     (if take 8 ln = ''property'' then
        (if take 13 ln = ''property list'' then
           (case match_property_list ln of
              None \<Rightarrow> Some (Inl (AttributeError ''groups''))
            | Some (count_type, data_type, name) \<Rightarrow>
                (case next_line f of
                   None \<Rightarrow> None
                 | Some (ln', f') \<Rightarrow>
                     face_properties ln' f' (names @ [name])
                       (dtypes @ [ListType count_type data_type])))
         else
           (case match_property ln of
              None \<Rightarrow> Some (Inl (AttributeError ''groups''))
            | Some (fmt, name) \<Rightarrow>
                (case next_line f of
                   None \<Rightarrow> None
                 | Some (ln', f') \<Rightarrow>
                     face_properties ln' f' (names @ [name]) (dtypes @ [ScalarType fmt]))))
      else Some (Inr (names, dtypes, ln, f)))"

declare face_properties.simps [code]

record header =
  num_verts :: nat
  num_cells :: nat
  point_data_formats :: "string list"
  point_data_names :: "string list"
  cell_data_names :: "string list"
  cell_data_dtypes :: "property_dtype list"

definition empty_header :: header where
  "empty_header = \<lparr>num_verts = 0, num_cells = 0, point_data_formats = [],
     point_data_names = [], cell_data_names = [], cell_data_dtypes = []\<rparr>"

text \<open>The loop over the header, up to the line \<open>end_header\<close>.\<close>

partial_function (option) header_loop :: "string \<Rightarrow> bytes \<Rightarrow> header \<Rightarrow>
    (error + header \<times> bytes) option" where
  "header_loop ln f h =
     (if ln = ''end_header'' then Some (Inr (h, f))
      else if take 8 ln = ''obj_info'' then
        (case next_line f of
           None \<Rightarrow> None
         | Some (ln', f') \<Rightarrow> header_loop ln' f' h)
      else
        (case match_count ''element vertex '' ln of
           Some n \<Rightarrow>
             (case next_line f of
                None \<Rightarrow> None
              | Some (ln', f') \<Rightarrow>
                  (case vertex_properties ln' f' (point_data_formats h) (point_data_names h) of
                     None \<Rightarrow> None
                   | Some (Inl err) \<Rightarrow> Some (Inl err)
                   | Some (Inr (formats, names, ln'', f'')) \<Rightarrow>
                       header_loop ln'' f''
                         (h\<lparr>num_verts := n, point_data_formats := formats,
                            point_data_names := names\<rparr>)))
         | None \<Rightarrow>
             (case match_count ''element face '' ln of
                Some n \<Rightarrow>
                  (case next_line f of
                     None \<Rightarrow> None
                   | Some (ln', f') \<Rightarrow>
                       (case face_properties ln' f' (cell_data_names h) (cell_data_dtypes h) of
                          None \<Rightarrow> None
                        | Some (Inl err) \<Rightarrow> Some (Inl err)
                        | Some (Inr (names, dtypes, ln'', f'')) \<Rightarrow>
                            header_loop ln'' f''
                              (h\<lparr>num_cells := n, cell_data_names := names,
                                 cell_data_dtypes := dtypes\<rparr>)))
              | None \<Rightarrow>
                  Some (Inl (ReadError
                    (''Expected '' @ [CHR 0x60] @ ''element vertex'' @ [CHR 0x60] @ '' or ''
                     @ [CHR 0x60] @ ''element face'' @ [CHR 0x60] @ '' or '' @ [CHR 0x60]
                     @ ''obj_info'' @ [CHR 0x60] @ '', got '' @ [CHR 0x60] @ ln @ [CHR 0x60]))))))"

declare header_loop.simps [code]

section \<open>The PLY reader: the binary body (\_read\_binary)\<close>

definition ply_to_numpy_dtype_string :: "(string \<times> dtype) list" where
  "ply_to_numpy_dtype_string =
     [(''uchar'', Int8), (''uint'', UInt32), (''uint8'', UInt8), (''uint16'', UInt16),
      (''uint32'', UInt32), (''uint64'', UInt64), (''int'', Int32), (''int8'', Int8),
      (''int32'', Int32), (''int64'', Int64), (''float'', Float32), (''float32'', Float32),
      (''double'', Float64)]"

text \<open>A list comprehension that looks every name up in a table; a missing name is a
  KeyError.\<close>

fun lookup_dtypes :: "(string \<times> dtype) list \<Rightarrow> string list \<Rightarrow> error + dtype list" where
  "lookup_dtypes table [] = Inr []"
| "lookup_dtypes table (fmt # fmts) =
     (case map_of table fmt of
        None \<Rightarrow> Inl (KeyError fmt)
      | Some d \<Rightarrow> (case lookup_dtypes table fmts of Inl err \<Rightarrow> Inl err | Inr ds \<Rightarrow> Inr (d # ds)))"

text \<open>\<open>np.frombuffer(bytes, dtype=fields)\<close>, given as the column of every field.\<close>

fun field_columns :: "endianness \<Rightarrow> bytes list \<Rightarrow> nat \<Rightarrow> (string \<times> dtype) list \<Rightarrow>
    (string \<times> dtype \<times> int list) list" where
  "field_columns e records offset [] = []"
| "field_columns e records offset ((name, d) # flds) =
     (name, d, map (\<lambda>r. decode_value d e (take (itemsize d) (drop offset r))) records)
     # field_columns e records (offset + itemsize d) flds"

definition fields_itemsize :: "(string \<times> dtype) list \<Rightarrow> nat" where
  "fields_itemsize flds = sum_list (map (\<lambda>(name, d). itemsize d) flds)"

definition frombuffer_fields :: "bytes \<Rightarrow> (string \<times> dtype) list \<Rightarrow> endianness \<Rightarrow>
    error + (string \<times> dtype \<times> int list) list" where
  "frombuffer_fields buf flds e =
     (if fields_itemsize flds = 0 then Inl (ValueError ''itemsize cannot be zero in type'')
      else if length buf mod fields_itemsize flds \<noteq> 0
      then Inl (ValueError ''buffer size must be a multiple of element size'')
      else Inr (field_columns e (chunks (fields_itemsize flds) buf) 0 flds))"

definition get_field :: "(string \<times> dtype \<times> int list) list \<Rightarrow> string \<Rightarrow> error + (dtype \<times> int list)" where
  "get_field cols name =
     (case map_of cols name of
        None \<Rightarrow> Inl (ValueError (''no field of name '' @ name))
      | Some col \<Rightarrow> Inr col)"

text \<open>\<open>np.column_stack\<close> of one-dimensional arrays.\<close>

definition column_stack :: "environment \<Rightarrow> (dtype \<times> int list) list \<Rightarrow> error + ndarray" where
  "column_stack env cols =
     (case cols of
        [] \<Rightarrow> Inl (ValueError ''need at least one array to concatenate'')
      | (d, xs) # rest \<Rightarrow>
          if list_ex (\<lambda>(d', ys). length ys \<noteq> length xs) rest
          then Inl (ValueError ''all the input array dimensions must match'')
          else
            (let d0 = (if list_all (\<lambda>(d', ys). d' = d) rest then d
                       else result_type env (map fst cols))
             in Inr \<lparr>dtype = d0, shape1 = length cols,
                      tolist = map (\<lambda>i. map (\<lambda>(d', ys). if d' = d0 then ys ! i
                                                         else convert env d' d0 (ys ! i)) cols)
                                 [0..<length xs]\<rparr>))"

text \<open>Assignment to a key of a dictionary, which keeps the order of first insertion.\<close>

fun dict_set :: "'k \<Rightarrow> 'v \<Rightarrow> ('k \<times> 'v) list \<Rightarrow> ('k \<times> 'v) list" where
  "dict_set k v [] = [(k, v)]"
| "dict_set k v ((k', v') # kvs) = (if k' = k then (k, v) # kvs else (k', v') # dict_set k v kvs)"

fun lookup_property_dtypes :: "property_dtype list \<Rightarrow> error + (dtype + dtype \<times> dtype) list" where
  "lookup_property_dtypes [] = Inr []"
| "lookup_property_dtypes (p # ps) =
     (case (case p of
              ListType ct dt \<Rightarrow>
                (case map_of ply_to_numpy_dtype_string ct of
                   None \<Rightarrow> Inl (KeyError ct)
                 | Some c \<Rightarrow>
                     (case map_of ply_to_numpy_dtype_string dt of
                        None \<Rightarrow> Inl (KeyError dt)
                      | Some d \<Rightarrow> Inr (Inr (c, d))))
            | ScalarType t \<Rightarrow>
                (case map_of ply_to_numpy_dtype_string t of
                   None \<Rightarrow> Inl (KeyError t)
                 | Some d \<Rightarrow> Inr (Inl d))) of
        Inl err \<Rightarrow> Inl err
      | Inr x \<Rightarrow>
          (case lookup_property_dtypes ps of Inl err \<Rightarrow> Inl err | Inr xs \<Rightarrow> Inr (x # xs)))"

text \<open>The loop over the properties of the face element, with the position in the buffer.\<close>

fun read_cell_properties :: "bytes \<Rightarrow> nat \<Rightarrow> nat \<Rightarrow> endianness \<Rightarrow>
    (string \<times> (dtype + dtype \<times> dtype)) list \<Rightarrow> (string \<times> cell_datum) list \<Rightarrow>
    error + (string \<times> cell_datum) list" where
  "read_cell_properties buffer buffer_position n e [] cd = Inr cd"
| "read_cell_properties buffer buffer_position n e ((name, dt) # props) cd =
     (case dt of
        Inr (count_dtype, data_dtype) \<Rightarrow>
          (case read_binary_list (drop buffer_position buffer) count_dtype data_dtype n e of
             Inl err \<Rightarrow> Inl err
           | Inr (buffer_increment, blocks) \<Rightarrow>
               read_cell_properties buffer (buffer_position + buffer_increment) n e props
                 (dict_set name (Blocks blocks) cd))
      | Inl d \<Rightarrow>
          (let piece = take (itemsize d) (drop buffer_position buffer)
           in if piece = [] then Inl (IndexError ''index 0 is out of bounds'')
              else if length piece \<noteq> itemsize d
              then Inl (ValueError ''buffer size must be a multiple of element size'')
              else read_cell_properties buffer (buffer_position + itemsize d) n e props
                     (dict_set name (Scalar (decode_value d e piece)) cd)))"

text \<open>
  \<open>Mesh(verts, cells, point_data=..., cell_data=...)\<close>. The class is not part of the sources at
  hand; it is taken to keep what it is given. Cells that are no list of blocks are refused.
\<close>

definition read_binary :: "environment \<Rightarrow> bytes \<Rightarrow> endianness \<Rightarrow> header \<Rightarrow> error + Mesh" where
  "read_binary env f e h =
     (case lookup_dtypes ply_to_numpy_dtype_string (point_data_formats h) of
        Inl err \<Rightarrow> Inl err
      | Inr ds \<Rightarrow>
          (let flds = zip (point_data_names h) ds
           in if \<not> distinct (map fst flds) then Inl (ValueError ''field occurs more than once'')
              else
                (case frombuffer_fields (take (num_verts h * fields_itemsize flds) f) flds e of
                   Inl err \<Rightarrow> Inl err
                 | Inr cols \<Rightarrow>
                     (case get_field cols ''x'' of
                        Inl err \<Rightarrow> Inl err
                      | Inr x \<Rightarrow>
                     (case get_field cols ''y'' of
                        Inl err \<Rightarrow> Inl err
                      | Inr y \<Rightarrow>
                     (case get_field cols ''z'' of
                        Inl err \<Rightarrow> Inl err
                      | Inr z \<Rightarrow>
                     (case column_stack env [x, y, z] of
                        Inl err \<Rightarrow> Inl err
                      | Inr verts \<Rightarrow>
                     (case lookup_property_dtypes (cell_data_dtypes h) of
                        Inl err \<Rightarrow> Inl err
                      | Inr dts \<Rightarrow>
                     (case read_cell_properties (drop (num_verts h * fields_itemsize flds) f) 0
                             (num_cells h) e (zip (cell_data_names h) dts) [] of
                        Inl err \<Rightarrow> Inl err
                      | Inr cd \<Rightarrow>
                          (case map_of cd ''vertex_indices'' of
                             Some (Scalar v) \<Rightarrow> Inl (TypeError ''cells'')
                           | Some (Arrays as) \<Rightarrow> Inl (TypeError ''cells'')
                           | other \<Rightarrow>
                               Inr \<lparr>points = verts,
                                    cells = (case other of Some (Blocks blocks) \<Rightarrow> blocks | _ \<Rightarrow> []),
                                    point_data =
                                      map (\<lambda>(name, d, xs). (name, Array1 d xs))
                                        (filter (\<lambda>(name, d, xs). name \<notin> set dim_names) cols),
                                    cell_data =
                                      filter (\<lambda>(name, v). name \<noteq> ''vertex_indices'')
                                        cd\<rparr>))))))))))"

section \<open>The PLY reader: the ASCII body (\_read\_ascii)\<close>

text \<open>\<open>line.split()\<close>: the pieces between runs of whitespace.\<close>

fun words_from :: "string \<Rightarrow> string \<Rightarrow> string list" where
  "words_from cur [] = (if cur = [] then [] else [cur])"
| "words_from cur (c # s) =
     (if is_space c then (if cur = [] then words_from [] s else cur # words_from [] s)
      else words_from (cur @ [c]) s)"

definition py_split :: "string \<Rightarrow> string list" where
  "py_split s = words_from [] s"

text \<open>\<open>xs[i]\<close> for a Python integer \<open>i\<close>: an index below zero counts from the end.\<close>

definition py_index :: "'a list \<Rightarrow> int \<Rightarrow> error + 'a" where
  "py_index xs i =
     (if 0 \<le> i \<and> i < int (length xs) then Inr (xs ! nat i)
      else if i < 0 \<and> - int (length xs) \<le> i then Inr (xs ! nat (int (length xs) + i))
      else Inl (IndexError ''list index out of range''))"

definition int_at :: "string list \<Rightarrow> int \<Rightarrow> error + int" where
  "int_at toks i =
     (case py_index toks i of
        Inl err \<Rightarrow> Inl err
      | Inr tok \<Rightarrow>
          (case py_int tok of
             None \<Rightarrow> Inl (ValueError ''invalid literal for int() with base 10'')
           | Some v \<Rightarrow> Inr v))"

text \<open>\<open>dtype(token)\<close> for a numpy scalar type.\<close>

definition parse_token :: "environment \<Rightarrow> dtype \<Rightarrow> string \<Rightarrow> error + int" where
  "parse_token env d tok =
     (if is_float d then parse_float env d tok
      else (case py_int tok of
              None \<Rightarrow> Inl (ValueError ''invalid literal for int() with base 10'')
            | Some v \<Rightarrow>
                if in_range d v then Inr v
                else Inl (OverflowError ''Python integer out of bounds'')))"

definition py_range :: "int \<Rightarrow> int \<Rightarrow> int list" where
  "py_range a b = map (\<lambda>k. a + int k) [0..<nat (b - a)]"

text \<open>\<open>[dtype(data[j]) for j in js]\<close>.\<close>

fun parse_range :: "environment \<Rightarrow> dtype \<Rightarrow> string list \<Rightarrow> int list \<Rightarrow> error + int list" where
  "parse_range env d toks [] = Inr []"
| "parse_range env d toks (j # js) =
     (case py_index toks j of
        Inl err \<Rightarrow> Inl err
      | Inr tok \<Rightarrow>
          (case parse_token env d tok of
             Inl err \<Rightarrow> Inl err
           | Inr v \<Rightarrow>
               (case parse_range env d toks js of
                  Inl err \<Rightarrow> Inl err
                | Inr vs \<Rightarrow> Inr (v # vs))))"

text \<open>\<open>d[k].append(v)\<close> on a \<open>defaultdict(list)\<close>: a new key goes to the end.\<close>

fun dict_append :: "'k \<Rightarrow> 'v \<Rightarrow> ('k \<times> 'v list) list \<Rightarrow> ('k \<times> 'v list) list" where
  "dict_append k v [] = [(k, [v])]"
| "dict_append k v ((k', vs) # kvs) =
     (if k' = k then (k', vs @ [v]) # kvs else (k', vs) # dict_append k v kvs)"

type_synonym polygons = "(int \<times> (dtype \<times> int list) list) list"
type_synonym ascii_cell_data = "(string \<times> (int \<times> (dtype \<times> int) list) list) list"

text \<open>\<open>cell_data[name][n] += [v]\<close>; a name that is no key is a KeyError.\<close>

fun add_cell_value :: "string \<Rightarrow> int \<Rightarrow> (dtype \<times> int) \<Rightarrow> ascii_cell_data \<Rightarrow> error + ascii_cell_data" where
  "add_cell_value name n v [] = Inl (KeyError name)"
| "add_cell_value name n v ((name', per_n) # cd) =
     (if name' = name then Inr ((name', dict_append n v per_n) # cd)
      else (case add_cell_value name n v cd of
              Inl err \<Rightarrow> Inl err
            | Inr cd' \<Rightarrow> Inr ((name', per_n) # cd')))"

text \<open>The loop that initialises the cell data arrays at the first face line; it leaves \<open>n\<close>
  set.\<close>

fun init_cell_data :: "string list \<Rightarrow> (string \<times> property_dtype) list \<Rightarrow> int \<Rightarrow> int \<Rightarrow>
    ascii_cell_data \<Rightarrow> error + (int \<times> ascii_cell_data)" where
  "init_cell_data toks [] i n cd = Inr (n, cd)"
| "init_cell_data toks ((name, dt) # props) i n cd =
     (if name = ''vertex_indices'' then
        (case int_at toks i of
           Inl err \<Rightarrow> Inl err
         | Inr m \<Rightarrow> init_cell_data toks props (i + (m + 1)) m cd)
      else init_cell_data toks props (i + 1) 1 (dict_set name [] cd))"

text \<open>The loop over the properties for one face line.\<close>

fun read_face_fields :: "environment \<Rightarrow> string list \<Rightarrow> (string \<times> property_dtype) list \<Rightarrow> int \<Rightarrow>
    int \<Rightarrow> polygons \<Rightarrow> ascii_cell_data \<Rightarrow> error + (int \<times> polygons \<times> ascii_cell_data)" where
  "read_face_fields env toks [] i n polys cd = Inr (n, polys, cd)"
| "read_face_fields env toks ((name, dt) # props) i n polys cd =
     (if name = ''vertex_indices'' then
        (case int_at toks i of
           Inl err \<Rightarrow> Inl err
         | Inr m \<Rightarrow>
             (case dt of
                ScalarType t \<Rightarrow>
                  if length t < 2 then Inl (IndexError ''string index out of range'')
                  else Inl (KeyError [t ! 1])
              | ListType count_type data_type \<Rightarrow>
                  (case map_of ply_to_numpy_dtype data_type of
                     None \<Rightarrow> Inl (KeyError data_type)
                   | Some d \<Rightarrow>
                       (case parse_range env d toks (py_range (i + 1) (i + m + 1)) of
                          Inl err \<Rightarrow> Inl err
                        | Inr row \<Rightarrow>
                            read_face_fields env toks props (i + (m + 1)) m
                              (dict_append m (d, row) polys) cd))))
      else
        (case dt of
           ListType count_type data_type \<Rightarrow> Inl (KeyError ''tuple'')
         | ScalarType t \<Rightarrow>
             (case map_of ply_to_numpy_dtype t of
                None \<Rightarrow> Inl (KeyError t)
              | Some d \<Rightarrow>
                  (case parse_range env d toks (py_range i (i + 1)) of
                     Inl err \<Rightarrow> Inl err
                   | Inr vals \<Rightarrow>
                       (case add_cell_value name n (d, hd vals) cd of
                          Inl err \<Rightarrow> Inl err
                        | Inr cd' \<Rightarrow> read_face_fields env toks props (i + 1) n polys cd')))))"

text \<open>The loop over the face lines; \<open>first\<close> tells the iteration \<open>k == 0\<close>.\<close>

fun read_faces :: "environment \<Rightarrow> (string \<times> property_dtype) list \<Rightarrow> nat \<Rightarrow> bool \<Rightarrow> bytes \<Rightarrow> int \<Rightarrow>
    polygons \<Rightarrow> ascii_cell_data \<Rightarrow> error + (polygons \<times> ascii_cell_data)" where
  "read_faces env props 0 first f n polys cd = Inr (polys, cd)"
| "read_faces env props (Suc k) first f n polys cd =
     (case readline f of
        (raw, rest) \<Rightarrow>
          (case (if first then init_cell_data (py_split (strip raw)) props 0 n []
                 else Inr (n, cd)) of
             Inl err \<Rightarrow> Inl err
           | Inr (n1, cd1) \<Rightarrow>
               (case read_face_fields env (py_split (strip raw)) props 0 n1 polys cd1 of
                  Inl err \<Rightarrow> Inl err
                | Inr (n2, polys2, cd2) \<Rightarrow> read_faces env props k False rest n2 polys2 cd2)))"

text \<open>\<open>np.array\<close> of the rows of one row length, and of the values of one cell-data list.\<close>

definition common_dtype :: "environment \<Rightarrow> dtype list \<Rightarrow> dtype" where
  "common_dtype env ds =
     (case ds of
        [] \<Rightarrow> Float64
      | d # rest \<Rightarrow> if list_all (\<lambda>d'. d' = d) rest then d else result_type env ds)"

definition np_array_rows :: "environment \<Rightarrow> int \<Rightarrow> (dtype \<times> int list) list \<Rightarrow> ndarray" where
  "np_array_rows env n rows =
     (if n \<le> 0 then \<lparr>dtype = Float64, shape1 = 0, tolist = map snd rows\<rparr>
      else
        (let d0 = common_dtype env (map fst rows)
         in \<lparr>dtype = d0, shape1 = nat n,
              tolist = map (\<lambda>(d, row). if d = d0 then row else map (convert env d d0) row) rows\<rparr>))"

definition np_array_values :: "environment \<Rightarrow> (dtype \<times> int) list \<Rightarrow> dtype \<times> int list" where
  "np_array_values env vals =
     (let d0 = common_dtype env (map fst vals)
      in (d0, map (\<lambda>(d, v). if d = d0 then v else convert env d d0 v) vals))"

text \<open>The coordinate columns are taken by position and name; \<open>k\<close> counts them.\<close>

fun take_coordinate :: "(string \<times> dtype \<times> int list) list \<Rightarrow> string list \<Rightarrow> int \<Rightarrow> string \<Rightarrow>
    (dtype \<times> int list) list \<times> nat \<Rightarrow> error + (dtype \<times> int list) list \<times> nat" where
  "take_coordinate pd names i dim (verts, k) =
     (case py_index names i of
        Inl err \<Rightarrow> Inl err
      | Inr name \<Rightarrow>
          if name = dim
          then (case get_field pd dim of
                  Inl err \<Rightarrow> Inl err
                | Inr col \<Rightarrow> Inr (verts @ [col], k + 1))
          else Inr (verts, k))"

fun collect_fields :: "(string \<times> dtype \<times> int list) list \<Rightarrow> string list \<Rightarrow>
    error + (string \<times> point_array) list" where
  "collect_fields pd [] = Inr []"
| "collect_fields pd (name # names) =
     (case get_field pd name of
        Inl err \<Rightarrow> Inl err
      | Inr (d, xs) \<Rightarrow>
          (case collect_fields pd names of
             Inl err \<Rightarrow> Inl err
           | Inr rest \<Rightarrow> Inr (dict_set name (Array1 d xs) rest)))"

definition read_ascii :: "environment \<Rightarrow> bytes \<Rightarrow> header \<Rightarrow> error + Mesh" where
  "read_ascii env f h =
     (case lookup_dtypes ply_to_numpy_dtype (point_data_formats h) of
        Inl err \<Rightarrow> Inl err
      | Inr ds \<Rightarrow>
          if \<not> distinct (map fst (zip (point_data_names h) ds))
          then Inl (ValueError ''field occurs more than once'')
          else
            (case genfromtxt env f (num_verts h) (zip (point_data_names h) ds) of
               Inl err \<Rightarrow> Inl err
             | Inr (pd, rest) \<Rightarrow>
            (case take_coordinate pd (point_data_names h) 0 ''x'' ([], 0) of
               Inl err \<Rightarrow> Inl err
             | Inr vk0 \<Rightarrow>
            (case take_coordinate pd (point_data_names h) 1 ''y'' vk0 of
               Inl err \<Rightarrow> Inl err
             | Inr vk1 \<Rightarrow>
            (case take_coordinate pd (point_data_names h) 2 ''z'' vk1 of
               Inl err \<Rightarrow> Inl err
             | Inr (cols, k) \<Rightarrow>
            (case column_stack env cols of
               Inl err \<Rightarrow> Inl err
             | Inr verts \<Rightarrow>
            (case collect_fields pd (drop k (point_data_names h)) of
               Inl err \<Rightarrow> Inl err
             | Inr pdata \<Rightarrow>
            (case read_faces env (zip (cell_data_names h) (cell_data_dtypes h)) (num_cells h)
                    True rest 0 [] [] of
               Inl err \<Rightarrow> Inl err
             | Inr (polys, cd) \<Rightarrow>
                 Inr \<lparr>points = verts,
                      cells = map (\<lambda>(n, rows). \<lparr>cell_type = cell_type_from_count n,
                                                 data = np_array_rows env n rows\<rparr>) polys,
                      point_data = pdata,
                      cell_data = map (\<lambda>(key, per_n).
                                    (key, Arrays (map (\<lambda>(n, vals). np_array_values env vals) per_n)))
                                    cd\<rparr>))))))))"

section \<open>The PLY reader: read\_buffer\<close>

definition read_format :: "string \<Rightarrow> error + (bool \<times> endianness)" where
  "read_format ln =
     (if ln = ''format ascii 1.0'' then Inr (False, Little)
      else if ln = ''format binary_big_endian 1.0'' then Inr (True, Big)
      else if ln \<noteq> ''format binary_little_endian 1.0'' then Inl (ReadError [])
      else Inr (True, Little))"

text \<open>\<open>None\<close> is the call that never returns (the header ends before \<open>end_header\<close>).\<close>

definition read_buffer :: "environment \<Rightarrow> bytes \<Rightarrow> (error + Mesh) option" where
  "read_buffer env f =
     (case readline f of
        (raw, f1) \<Rightarrow>
          if strip raw \<noteq> ''ply'' then Some (Inl (ReadError ''Expected ply''))
          else
            (case next_line f1 of
               None \<Rightarrow> None
             | Some (ln, f2) \<Rightarrow>
                 (case read_format ln of
                    Inl err \<Rightarrow> Some (Inl err)
                  | Inr (is_binary, e) \<Rightarrow>
                      (case next_line f2 of
                         None \<Rightarrow> None
                       | Some (ln3, f3) \<Rightarrow>
                           (case header_loop ln3 f3 empty_header of
                              None \<Rightarrow> None
                            | Some (Inl err) \<Rightarrow> Some (Inl err)
                            | Some (Inr (h, f4)) \<Rightarrow>
                                Some (if is_binary then read_binary env f4 e h
                                      else read_ascii env f4 h))))))"

section \<open>Notions used to state the properties of the codec\<close>

text \<open>The exception, if any, that ends the writer before it reaches the cells: the one of the
  loop over the coordinate columns or of the loop over the point data.\<close>

definition vertex_header_error :: "Mesh \<Rightarrow> error option" where
  "vertex_header_error mesh =
     (case write_dims (dtype (points mesh)) [0..<shape1 (points mesh)] of
        (out1, Some err) \<Rightarrow> Some err
      | (out1, None) \<Rightarrow>
          (case write_point_data (point_data mesh) of (out2, warns2, pd, err) \<Rightarrow> err))"

section \<open>Examples\<close>

text \<open>An environment for the examples: a little-endian host; the two floats 0.0 and 1.0 are
  printed and parsed, and \<open>genfromtxt\<close> reads rows of these.\<close>

definition example_format_float :: "dtype \<Rightarrow> int \<Rightarrow> string" where
  "example_format_float d v = (if v = 0 then ''0.0'' else ''1.0'')"

definition example_parse_float :: "dtype \<Rightarrow> string \<Rightarrow> error + int" where
  "example_parse_float d s =
     (if s = ''0.0'' then Inr 0 else if s = ''1.0'' then Inr 4607182418800017408
      else Inl (ValueError ''could not convert string to float''))"

fun example_genfromtxt_rows :: "nat \<Rightarrow> bytes \<Rightarrow> string list list \<times> bytes" where
  "example_genfromtxt_rows 0 f = ([], f)"
| "example_genfromtxt_rows (Suc n) f =
     (case readline f of
        (raw, rest) \<Rightarrow>
          (case example_genfromtxt_rows n rest of
             (rows, rest') \<Rightarrow> (py_split raw # rows, rest')))"

definition example_genfromtxt :: "bytes \<Rightarrow> nat \<Rightarrow> (string \<times> dtype) list \<Rightarrow>
    error + ((string \<times> dtype \<times> int list) list \<times> bytes)" where
  "example_genfromtxt f n flds =
     (case example_genfromtxt_rows n f of
        (rows, rest) \<Rightarrow>
          Inr (map (\<lambda>j. (fst (flds ! j), snd (flds ! j),
                         map (\<lambda>row. if row ! j = ''1.0'' then 4607182418800017408 else 0) rows))
                 [0..<length flds],
               rest))"

definition example_env :: environment where
  "example_env =
     \<lparr>sys_byteorder = Little, meshio_version = ''4.0.16'',
      now_isoformat = ''2020-06-01T12:00:00.000000'',
      format_float = example_format_float, parse_float = example_parse_float,
      full_float = (\<lambda>d w. 0), result_type = (\<lambda>ds. Float64), convert = (\<lambda>d d' v. v),
      genfromtxt = example_genfromtxt\<rparr>"

definition example_points :: ndarray where
  "example_points =
     \<lparr>dtype = Float64, shape1 = 3,
      tolist = [[0, 0, 0], [4607182418800017408, 0, 0], [0, 4607182418800017408, 0],
                [0, 0, 4607182418800017408]]\<rparr>"

definition mesh_of :: "CellBlock list \<Rightarrow> Mesh" where
  "mesh_of blocks = \<lparr>points = example_points, cells = blocks, point_data = [], cell_data = []\<rparr>"

definition block :: "string \<Rightarrow> dtype \<Rightarrow> int list list \<Rightarrow> CellBlock" where
  "block tag d rows = \<lparr>cell_type = tag, data = \<lparr>dtype = d, shape1 = length (hd rows), tolist = rows\<rparr>\<rparr>"

section \<open>Decimal rendering and parsing\<close>

lemma is_digit_digit_char: "d < 10 \<Longrightarrow> is_digit (digit_char d)"
  by (simp add: is_digit_def digit_char_def)

lemma digit_val_digit_char: "d < 10 \<Longrightarrow> digit_val (digit_char d) = d"
  by (simp add: digit_val_def digit_char_def)

lemma str_nat_nonempty: "str_nat n \<noteq> []"
  by (subst str_nat.simps) simp

lemma str_nat_digits: "list_all is_digit (str_nat n)"
proof (induction n rule: str_nat.induct)
  case (1 n)
  show ?case
  proof (cases "n < 10")
    case True
    then show ?thesis by (subst str_nat.simps) (simp add: is_digit_digit_char)
  next
    case False
    with 1 show ?thesis by (subst str_nat.simps) (simp add: is_digit_digit_char)
  qed
qed

lemma nat_of_digits_snoc: "nat_of_digits (ds @ [c]) = 10 * nat_of_digits ds + digit_val c"
  by (simp add: nat_of_digits_def)

lemma nat_of_digits_str_nat: "nat_of_digits (str_nat n) = n"
proof (induction n rule: str_nat.induct)
  case (1 n)
  show ?case
  proof (cases "n < 10")
    case True
    then show ?thesis
      by (subst str_nat.simps) (simp add: nat_of_digits_def digit_val_digit_char)
  next
    case False
    with 1 have "nat_of_digits (str_nat (n div 10)) = n div 10" by simp
    with False show ?thesis
      by (subst str_nat.simps) (simp add: nat_of_digits_snoc digit_val_digit_char)
  qed
qed


section \<open>Tags and counts are inverse to each other\<close>

lemma cell_type_from_count_small:
  "cell_type_from_count 1 = ''vertex''" "cell_type_from_count 2 = ''line''"
  "cell_type_from_count 3 = ''triangle''" "cell_type_from_count 4 = ''quad''"
  by (simp_all add: cell_type_from_count_def cell_type_from_count_table_def
      cell_type_to_count_table_def)

lemma cell_type_to_count_small:
  "cell_type_to_count ''vertex'' = Some 1" "cell_type_to_count ''line'' = Some 2"
  "cell_type_to_count ''triangle'' = Some 3" "cell_type_to_count ''quad'' = Some 4"
  by (simp_all add: cell_type_to_count_def cell_type_to_count_table_def)

lemma cell_type_from_count_other:
  assumes "n \<notin> {1, 2, 3, 4}"
  shows "cell_type_from_count n = ''polygon'' @ str n"
  using assms
  by (simp add: cell_type_from_count_def cell_type_from_count_table_def
      cell_type_to_count_table_def)

lemma cell_type_to_count_polygon:
  assumes "ds \<noteq> []" "list_all is_digit ds"
  shows "cell_type_to_count (''polygon'' @ ds) = Some (int (nat_of_digits ds))"
proof -
  have m: "map_of cell_type_to_count_table (''polygon'' @ ds) = None"
    by (simp add: cell_type_to_count_table_def)
  have g: "fullmatch_polygon (''polygon'' @ ds) = Some ds"
    using assms by (simp add: fullmatch_polygon_def)
  show ?thesis by (simp only: cell_type_to_count_def m g option.case)
qed

lemma cell_type_to_from_count:
  assumes pos: "0 < n"
  shows "cell_type_to_count (cell_type_from_count n) = Some n"
proof -
  consider "n = 1" | "n = 2" | "n = 3" | "n = 4" | "4 < n" using pos by linarith
  then show ?thesis
  proof cases
    case 5
    then have f: "cell_type_from_count n = ''polygon'' @ str_nat (nat n)"
      using cell_type_from_count_other [of n] by (simp add: str_def)
    show ?thesis using 5
      by (simp only: f cell_type_to_count_polygon [OF str_nat_nonempty str_nat_digits]
          nat_of_digits_str_nat) simp
  qed (simp_all only: cell_type_from_count_small cell_type_to_count_small)
qed

lemma fullmatch_polygon_None:
  "fullmatch_polygon t = None \<longleftrightarrow>
     \<not> (\<exists>ds. ds \<noteq> [] \<and> list_all is_digit ds \<and> t = ''polygon'' @ ds)"
proof -
  have "(\<exists>ds. ds \<noteq> [] \<and> list_all is_digit ds \<and> t = ''polygon'' @ ds) \<longleftrightarrow>
        (take 7 t = ''polygon'' \<and> drop 7 t \<noteq> [] \<and> list_all is_digit (drop 7 t))"
  proof
    assume "\<exists>ds. ds \<noteq> [] \<and> list_all is_digit ds \<and> t = ''polygon'' @ ds"
    then show "take 7 t = ''polygon'' \<and> drop 7 t \<noteq> [] \<and> list_all is_digit (drop 7 t)"
      by auto
  next
    assume h: "take 7 t = ''polygon'' \<and> drop 7 t \<noteq> [] \<and> list_all is_digit (drop 7 t)"
    have "t = take 7 t @ drop 7 t" by simp
    with h have "t = ''polygon'' @ drop 7 t" by simp
    with h show "\<exists>ds. ds \<noteq> [] \<and> list_all is_digit ds \<and> t = ''polygon'' @ ds" by blast
  qed
  then show ?thesis by (simp add: fullmatch_polygon_def)
qed

lemma cell_type_to_count_None:
  "cell_type_to_count t = None \<longleftrightarrow>
     t \<notin> {''vertex'', ''line'', ''triangle'', ''quad''} \<and>
     \<not> (\<exists>ds. ds \<noteq> [] \<and> list_all is_digit ds \<and> t = ''polygon'' @ ds)"
proof -
  have a: "map_of cell_type_to_count_table t = None \<longleftrightarrow>
           t \<notin> {''vertex'', ''line'', ''triangle'', ''quad''}"
    by (simp add: cell_type_to_count_table_def)
  have "cell_type_to_count t = None \<longleftrightarrow>
          map_of cell_type_to_count_table t = None \<and> fullmatch_polygon t = None"
    by (simp add: cell_type_to_count_def split: option.splits)
  then show ?thesis
    by (simp only: a fullmatch_polygon_None)
qed

text \<open>
  Claim C9. For every positive count \<open>n\<close>, \<open>cell_type_to_count (cell_type_from_count n)\<close> is
  \<open>n\<close>: the counts 1, 2, 3, 4 are named vertex, line, triangle, quad, every other count is
  named \<open>polygon\<close> followed by its decimal rendering, and \<open>cell_type_to_count\<close> inverts this.
  It returns \<open>None\<close> exactly for the tags outside the vocabulary (the four names and
  \<open>polygon\<close> followed by one or more digits), so a custom tag is told apart without an error.
\<close>

theorem cell_type_count_inverse:
  "(0 < n \<longrightarrow> cell_type_to_count (cell_type_from_count n) = Some n) \<and>
   cell_type_from_count 1 = ''vertex'' \<and> cell_type_from_count 2 = ''line'' \<and>
   cell_type_from_count 3 = ''triangle'' \<and> cell_type_from_count 4 = ''quad'' \<and>
   (n \<notin> {1, 2, 3, 4} \<longrightarrow> cell_type_from_count n = ''polygon'' @ str n) \<and>
   (cell_type_to_count t = None \<longleftrightarrow>
      t \<notin> {''vertex'', ''line'', ''triangle'', ''quad''} \<and>
      \<not> (\<exists>ds. ds \<noteq> [] \<and> list_all is_digit ds \<and> t = ''polygon'' @ ds))"
  using cell_type_to_from_count [of n] cell_type_from_count_small
    cell_type_from_count_other [of n] cell_type_to_count_None [of t]
  by blast

lemma str_7: "str 7 = ''7''"
  by code_simp

theorem cell_type_count_inverse_witness:
  "(0::int) < 7 \<and> cell_type_to_count (cell_type_from_count 7) = Some 7 \<and>
   (7::int) \<notin> {1, 2, 3, 4} \<and> cell_type_from_count 7 = ''polygon7'' \<and>
   cell_type_to_count ''tetra'' = None"
proof -
  note t = cell_type_count_inverse [of 7 "''tetra''"]
  have d: "(0::int) < 7" and e: "(7::int) \<notin> {1, 2, 3, 4}" by simp_all
  from t d have a: "cell_type_to_count (cell_type_from_count 7) = Some 7" by blast
  from t e have "cell_type_from_count 7 = ''polygon'' @ str 7" by blast
  then have b: "cell_type_from_count 7 = ''polygon7''" by (simp add: str_7)
  from t have c: "cell_type_to_count ''tetra'' = None" by simp
  from d a e b c show ?thesis by (intro conjI)
qed
section \<open>The decoder returns the runs\<close>

lemma length_to_bytes_le: "length (to_bytes_le k v) = k"
  by (induction k arbitrary: v) auto

lemma length_to_bytes: "length (to_bytes e k v) = k"
  by (cases e) (simp_all add: to_bytes_def length_to_bytes_le)

lemma from_bytes_le_to_bytes_le: "v < 256 ^ k \<Longrightarrow> from_bytes_le (to_bytes_le k v) = v"
proof (induction k arbitrary: v)
  case 0
  then show ?case by simp
next
  case (Suc k)
  from Suc.prems have "v div 256 < 256 ^ k"
    by (simp add: less_mult_imp_div_less mult.commute)
  then have "from_bytes_le (to_bytes_le k (v div 256)) = v div 256" by (rule Suc.IH)
  then show ?case by simp
qed

lemma from_bytes_to_bytes: "v < 256 ^ k \<Longrightarrow> from_bytes e (to_bytes e k v) = v"
  by (cases e) (simp_all add: from_bytes_def to_bytes_def from_bytes_le_to_bytes_le)

lemma length_encode_value: "length (encode_value d e v) = itemsize d"
  by (simp add: encode_value_def length_to_bytes)

lemma pow8: "(2::int) ^ (8 * k) = 256 ^ k" "(2::nat) ^ (8 * k) = 256 ^ k"
  by (simp_all add: power_mult)

lemma decode_encode_value:
  assumes "in_range d v"
  shows "decode_value d e (encode_value d e v) = v"
proof -
  let ?M = "(2::int) ^ (8 * itemsize d)"
  let ?H = "(2::int) ^ (8 * itemsize d - 1)"
  have M: "?M = 2 * ?H"
    by (cases d) simp_all
  have Mpos: "0 < ?M" by simp
  have lt: "nat (v mod ?M) < 256 ^ itemsize d"
  proof -
    have "v mod ?M < ?M" by (rule pos_mod_bound) simp
    moreover have "0 \<le> v mod ?M" by (rule pos_mod_sign) simp
    ultimately have "nat (v mod ?M) < nat ?M" by linarith
    also have "nat ?M = 256 ^ itemsize d"
      by (simp add: nat_power_eq power_mult)
    finally show ?thesis .
  qed
  have u: "int (from_bytes e (encode_value d e v)) = v mod ?M"
    unfolding encode_value_def using from_bytes_to_bytes [OF lt, of e] by simp
  show ?thesis
  proof (cases "is_signed d")
    case False
    with assms have "0 \<le> v" "v < ?M" by (simp_all add: in_range_def)
    then have "v mod ?M = v" by simp
    with False u show ?thesis by (simp add: decode_value_def)
  next
    case True
    with assms have r: "- ?H \<le> v" "v < ?H" by (simp_all add: in_range_def)
    show ?thesis
    proof (cases "0 \<le> v")
      case True
      with r M have "v mod ?M = v" by simp
      with \<open>is_signed d\<close> u r show ?thesis by (simp add: decode_value_def)
    next
      case False
      with r M have "v mod ?M = v + ?M"
        by (smt (verit) mod_add_self2 mod_pos_pos_trivial)
      with \<open>is_signed d\<close> u r M False show ?thesis by (simp add: decode_value_def Let_def)
    qed
  qed
qed

lemma length_concat_encode: "length (concat (map (encode_value d e) row)) = length row * itemsize d"
  by (induction row) (simp_all add: length_encode_value)

lemma length_encode_row:
  "length (encode_row e cd dd row) = length row * itemsize dd + itemsize cd"
  by (simp add: encode_row_def length_to_bytes length_concat_encode)

lemma count_of_encode_row:
  assumes "length row < 256 ^ itemsize cd"
  shows "from_bytes e (take (itemsize cd) (encode_row e cd dd row @ rest)) = length row"
  using assms by (simp add: encode_row_def length_to_bytes from_bytes_to_bytes)

lemma parse_ragged_offsets:
  assumes "list_all (valid_row cd dd) recs"
  shows "parse_ragged (pre @ concat (map (encode_row e cd dd) recs) @ rest)
           (itemsize cd) (itemsize dd) e (length pre) (length recs)
         = offsets (itemsize cd) (itemsize dd) (length pre) recs"
  using assms
proof (induction recs arbitrary: pre)
  case Nil
  then show ?case by simp
next
  case (Cons r rs)
  let ?buf = "pre @ concat (map (encode_row e cd dd) (r # rs)) @ rest"
  have vr: "length r < 256 ^ itemsize cd"
    using Cons.prems by (simp add: valid_row_def)
  have vrs: "list_all (valid_row cd dd) rs"
    using Cons.prems by simp
  have cnt: "from_bytes e (take (itemsize cd) (drop (length pre) ?buf)) = length r"
    using count_of_encode_row [OF vr, of e dd "concat (map (encode_row e cd dd) rs) @ rest"]
    by simp
  have buf: "?buf = (pre @ encode_row e cd dd r) @ concat (map (encode_row e cd dd) rs) @ rest"
    by simp
  have len: "length (pre @ encode_row e cd dd r) = length pre + (length r * itemsize dd + itemsize cd)"
    by (simp add: length_encode_row)
  have "parse_ragged ?buf (itemsize cd) (itemsize dd) e (length pre) (Suc (length rs))
        = length pre # parse_ragged ?buf (itemsize cd) (itemsize dd) e
            (length pre + (length r * itemsize dd + itemsize cd)) (length rs)"
    by (simp only: parse_ragged.simps cnt Let_def)
  also have "parse_ragged ?buf (itemsize cd) (itemsize dd) e
            (length pre + (length r * itemsize dd + itemsize cd)) (length rs)
        = offsets (itemsize cd) (itemsize dd) (length pre + (length r * itemsize dd + itemsize cd)) rs"
    using Cons.IH [OF vrs, of "pre @ encode_row e cd dd r"] by (simp only: buf len)
  finally show ?case by simp
qed

lemma diff_Cons2: "diff (a # b # xs) = (b - a) # diff (b # xs)"
  by (simp add: diff_def)

lemma diff_single: "diff [a] = []"
  by (simp add: diff_def)

lemma offsets_nonempty: "offsets cs ds at recs \<noteq> []"
  by (cases recs) simp_all

lemma hd_offsets: "hd (offsets cs ds at recs) = at"
  by (cases recs) simp_all

lemma diff_offsets:
  "diff (map int (offsets cs ds at recs)) = map (\<lambda>r. int (length r * ds + cs)) recs"
proof (induction recs arbitrary: at)
  case Nil
  then show ?case by (simp add: diff_def)
next
  case (Cons r rs)
  obtain b bs where o: "offsets cs ds (at + (length r * ds + cs)) rs = b # bs"
    using offsets_nonempty by (cases "offsets cs ds (at + (length r * ds + cs)) rs") auto
  have b: "b = at + (length r * ds + cs)"
    using hd_offsets [of cs ds "at + (length r * ds + cs)" rs] o by simp
  have "diff (map int (offsets cs ds at (r # rs))) =
        (int b - int at) # diff (map int (b # bs))"
    by (simp add: o diff_Cons2)
  also have "diff (map int (b # bs)) = map (\<lambda>r. int (length r * ds + cs)) rs"
    using Cons.IH [of "at + (length r * ds + cs)"] o by simp
  finally show ?case using b by simp
qed

lemma length_offsets: "length (offsets cs ds at recs) = Suc (length recs)"
  by (induction recs arbitrary: at) simp_all

lemma last_offsets:
  "last (offsets (itemsize cd) (itemsize dd) at recs)
   = at + length (concat (map (encode_row e cd dd) recs))"
  by (induction recs arbitrary: at) (simp_all add: offsets_nonempty length_encode_row)

lemma itemsize_pos: "0 < itemsize d"
  by (cases d) simp_all

lemma chunks_Nil: "chunks n [] = []"
  by (simp add: chunks.simps)

lemma chunks_append:
  assumes "0 < n" "length x = n"
  shows "chunks n (x @ ys) = x # chunks n ys"
proof -
  from assms have "x @ ys \<noteq> []" by auto
  with assms show ?thesis by (subst chunks.simps) simp
qed

lemma chunks_concat:
  assumes "0 < n" "\<forall>x\<in>set xss. length x = n"
  shows "chunks n (concat xss) = xss"
  using assms(2)
proof (induction xss)
  case Nil
  then show ?case by (simp add: chunks_Nil)
next
  case (Cons x xss)
  then show ?case using assms(1) by (simp add: chunks_append)
qed

lemma chunks_encode_values:
  "chunks (itemsize dd) (concat (map (encode_value dd e) row)) = map (encode_value dd e) row"
  by (rule chunks_concat) (simp_all add: itemsize_pos length_encode_value)

lemma decode_row:
  assumes "list_all (in_range dd) row"
  shows "map (decode_value dd e)
           (chunks (itemsize dd) (drop (itemsize cd) (encode_row e cd dd row))) = row"
proof -
  have "drop (itemsize cd) (encode_row e cd dd row) = concat (map (encode_value dd e) row)"
    by (simp add: encode_row_def length_to_bytes)
  moreover have "map (decode_value dd e) (map (encode_value dd e) row) = row"
    using assms by (induction row) (simp_all add: decode_encode_value)
  ultimately show ?thesis by (simp only: chunks_encode_values)
qed

lemma length_concat_rows:
  assumes "\<forall>r\<in>set run. length r = k"
  shows "length (concat (map (encode_row e cd dd) run)) = length run * (itemsize cd + k * itemsize dd)"
  using assms by (induction run) (simp_all add: length_encode_row)

lemma frombuffer_data_rows:
  assumes len: "\<forall>r\<in>set run. length r = k"
    and val: "list_all (valid_row cd dd) run"
  shows "frombuffer_data (concat (map (encode_row e cd dd) run)) cd dd e k
         = Inr \<lparr>dtype = dd, shape1 = k, tolist = run\<rparr>"
proof -
  let ?rs = "itemsize cd + k * itemsize dd"
  have pos: "0 < ?rs" using itemsize_pos [of cd] by simp
  have m: "length (concat (map (encode_row e cd dd) run)) mod ?rs = 0"
    by (simp add: length_concat_rows [OF len])
  have "\<forall>x\<in>set (map (encode_row e cd dd) run). length x = ?rs"
    using len by (simp add: length_encode_row)
  then have c: "chunks ?rs (concat (map (encode_row e cd dd) run)) = map (encode_row e cd dd) run"
    by (rule chunks_concat [OF pos])
  have d: "map (\<lambda>row. map (decode_value dd e) (chunks (itemsize dd) (drop (itemsize cd) row)))
             (map (encode_row e cd dd) run) = run"
    using val by (induction run) (simp_all add: decode_row valid_row_def)
  show ?thesis
    unfolding frombuffer_data_def Let_def by (simp only: m c d) simp
qed

lemma nonzero_Cons:
  "nonzero (x # xs) = (if x \<noteq> 0 then [0] else []) @ map Suc (nonzero xs)"
proof -
  have "[0..<length (x # xs)] = 0 # map Suc [0..<length xs]"
    by (simp add: upt_conv_Cons map_Suc_upt del: upt_Suc)
  then show ?thesis
    by (simp add: nonzero_def filter_map comp_def del: upt_Suc)
qed

lemma nonzero_Nil: "nonzero [] = []"
  by (simp add: nonzero_def)

lemma changed_ids_Nil: "changed_ids [] = []"
  by (simp add: changed_ids_def diff_def nonzero_Nil)

lemma changed_ids_single: "changed_ids [a] = []"
  by (simp add: changed_ids_def diff_single nonzero_Nil)

lemma changed_ids_Cons2:
  "changed_ids (a # b # L) = (if a \<noteq> b then [1] else []) @ map Suc (changed_ids (b # L))"
  by (simp add: changed_ids_def diff_Cons2 nonzero_Cons)

lemma changed_ids_replicate:
  assumes "L' = [] \<or> hd L' \<noteq> a"
  shows "changed_ids (a # replicate j a @ L')
         = (if L' = [] then [] else Suc j # map (\<lambda>i. i + Suc j) (changed_ids L'))"
proof (induction j)
  case 0
  show ?case
  proof (cases L')
    case Nil
    then show ?thesis by (simp add: changed_ids_single)
  next
    case (Cons b M)
    with assms have "a \<noteq> b" by auto
    with Cons show ?thesis by (simp add: changed_ids_Cons2)
  qed
next
  case (Suc j)
  have "changed_ids (a # replicate (Suc j) a @ L') = map Suc (changed_ids (a # replicate j a @ L'))"
    by (simp add: changed_ids_Cons2)
  with Suc show ?case by (simp add: comp_def)
qed

lemma block_bounds_shift:
  "block_bounds (s + m) (map (\<lambda>i. i + m) ids) (n + m)
   = map (\<lambda>(a, b). (a + m, b + m)) (block_bounds s ids n)"
  by (induction ids arbitrary: s) simp_all

lemma read_blocks_shift:
  assumes "m \<le> length bse" "m \<le> length L"
  shows "read_blocks buf cd dd e bse L (map (\<lambda>(a, b). (a + m, b + m)) bounds)
         = read_blocks buf cd dd e (drop m bse) (drop m L) bounds"
proof (induction bounds)
  case Nil
  then show ?case by simp
next
  case (Cons p bounds)
  obtain a b where p: "p = (a, b)" by (cases p)
  have n1: "bse ! (a + m) = drop m bse ! a" "bse ! (b + m) = drop m bse ! b"
    using assms(1) by (simp_all add: add.commute)
  have n2: "L ! (a + m) = drop m L ! a"
    using assms(2) by (simp add: add.commute)
  show ?case
    unfolding p using Cons.IH
    by (simp only: list.map prod.case read_blocks.simps n1 n2 add_right_cancel)
qed

lemma offsets_append_drop:
  "drop (length xs) (offsets (itemsize cd) (itemsize dd) at (xs @ ys))
   = offsets (itemsize cd) (itemsize dd)
       (at + length (concat (map (encode_row e cd dd) xs))) ys"
  by (induction xs arbitrary: at) (simp_all add: length_encode_row add.assoc)

lemma offsets_nth_0: "offsets cs ds at recs ! 0 = at"
  by (cases recs) simp_all

lemma offsets_nth_length:
  "offsets (itemsize cd) (itemsize dd) at (xs @ ys) ! length xs
   = at + length (concat (map (encode_row e cd dd) xs))"
proof -
  have "offsets (itemsize cd) (itemsize dd) at (xs @ ys) ! length xs
        = drop (length xs) (offsets (itemsize cd) (itemsize dd) at (xs @ ys)) ! 0"
    by (simp add: length_offsets)
  then show ?thesis
    by (simp only: offsets_append_drop [of xs cd dd at ys e] offsets_nth_0)
qed

lemma read_blocks_first:
  assumes len: "\<forall>x\<in>set run. length x = length r"
    and val: "list_all (valid_row cd dd) run"
    and hd: "hd run = r"
    and s: "bse ! s = length pre"
    and t: "bse ! t = length pre + length (concat (map (encode_row e cd dd) run))"
    and L: "L ! s = int (length r * itemsize dd + itemsize cd)"
    and ne: "s \<noteq> t"
  shows "read_blocks (pre @ concat (map (encode_row e cd dd) run) @ rest) cd dd e bse L
           ((s, t) # bounds)
         = (case read_blocks (pre @ concat (map (encode_row e cd dd) run) @ rest) cd dd e bse L
                  bounds of
              Inl err \<Rightarrow> Inl err
            | Inr blocks \<Rightarrow> Inr (block_of dd run # blocks))"
proof -
  let ?buf = "pre @ concat (map (encode_row e cd dd) run) @ rest"
  have bb: "take (bse ! t - bse ! s) (drop (bse ! s) ?buf) = concat (map (encode_row e cd dd) run)"
    by (simp add: s t)
  have "(int (length r * itemsize dd + itemsize cd) - int (itemsize cd)) div int (itemsize dd)
        = int (length r)"
    using itemsize_pos [of dd] by simp
  then have k: "nat ((L ! s - int (itemsize cd)) div int (itemsize dd)) = length r"
    by (simp only: L nat_int)
  have fb: "frombuffer_data (concat (map (encode_row e cd dd) run)) cd dd e (length r)
            = Inr \<lparr>dtype = dd, shape1 = length r, tolist = run\<rparr>"
    by (rule frombuffer_data_rows [OF len val])
  have "read_blocks ?buf cd dd e bse L ((s, t) # bounds)
        = (case read_blocks ?buf cd dd e bse L bounds of
             Inl err \<Rightarrow> Inl err
           | Inr blocks \<Rightarrow>
               Inr (\<lparr>cell_type = cell_type_from_count
                       (int (shape1 \<lparr>dtype = dd, shape1 = length r, tolist = run\<rparr>)),
                     data = \<lparr>dtype = dd, shape1 = length r, tolist = run\<rparr>\<rparr> # blocks))"
    using ne by (simp only: read_blocks.simps if_False Let_def bb k fb sum.case)
  also have "\<dots> = (case read_blocks ?buf cd dd e bse L bounds of
              Inl err \<Rightarrow> Inl err
            | Inr blocks \<Rightarrow> Inr (block_of dd run # blocks))"
    by (simp add: block_of_def hd cong: sum.case_cong)
  finally show ?thesis .
qed

lemma read_blocks_runs:
  assumes "list_all (valid_row cd dd) recs" "recs \<noteq> []"
  shows "read_blocks (pre @ concat (map (encode_row e cd dd) recs) @ rest) cd dd e
           (offsets (itemsize cd) (itemsize dd) (length pre) recs)
           (map (\<lambda>r. int (length r * itemsize dd + itemsize cd)) recs)
           (block_bounds 0
              (changed_ids (map (\<lambda>r. int (length r * itemsize dd + itemsize cd)) recs))
              (length recs))
         = Inr (map (block_of dd) (runs recs))"
  using assms
proof (induction recs arbitrary: pre rule: runs.induct)
  case 1
  then show ?case by simp
next
  case (2 r rs)
  define f where "f = (\<lambda>r::int list. int (length r * itemsize dd + itemsize cd))"
  have f_eq: "f x = f r \<longleftrightarrow> length x = length r" for x
    using itemsize_pos [of dd] by (simp add: f_def)
  let ?enc = "encode_row e cd dd"
  define tw where "tw = takeWhile (\<lambda>x. length x = length r) rs"
  define dw where "dw = dropWhile (\<lambda>x. length x = length r) rs"
  define run where "run = r # tw"
  define m where "m = length run"
  define bse where "bse = offsets (itemsize cd) (itemsize dd) (length pre) (run @ dw)"
  define L where "L = map f (run @ dw)"
  define buf where "buf = pre @ concat (map ?enc run) @ concat (map ?enc dw) @ rest"
  have rs: "rs = tw @ dw" by (simp add: tw_def dw_def)
  have recs: "r # rs = run @ dw" by (simp add: rs run_def)
  have m_pos: "0 \<noteq> m" by (simp add: m_def run_def)
  have len: "\<forall>x\<in>set run. length x = length r"
    by (auto simp: run_def tw_def dest: set_takeWhileD)
  have val_all: "list_all (valid_row cd dd) (run @ dw)"
    using "2.prems"(1) by (simp only: recs)
  have val_run: "list_all (valid_row cd dd) run" and val_dw: "list_all (valid_row cd dd) dw"
    using val_all by simp_all
  have hd_run: "hd run = r" by (simp add: run_def)
  have "map f tw = replicate (length tw) (f r)"
    using len by (simp add: run_def map_replicate_const [symmetric] f_eq cong: map_cong)
  then have f_run: "map f run = f r # replicate (length tw) (f r)"
    by (simp add: run_def)
  have sep: "map f dw = [] \<or> hd (map f dw) \<noteq> f r"
  proof (cases dw)
    case Nil
    then show ?thesis by simp
  next
    case (Cons d ds)
    then have "\<not> length d = length r"
      using hd_dropWhile [of "\<lambda>x. length x = length r" rs] by (simp add: dw_def)
    with Cons show ?thesis by (simp add: f_eq)
  qed
  have ids: "changed_ids L
             = (if dw = [] then [] else m # map (\<lambda>i. i + m) (changed_ids (map f dw)))"
  proof -
    have "L = f r # replicate (length tw) (f r) @ map f dw"
      by (simp add: L_def f_run)
    then show ?thesis
      using changed_ids_replicate [OF sep, of "length tw"] by (simp add: m_def run_def)
  qed
  have b0: "bse ! 0 = length pre" by (simp add: bse_def offsets_nth_0)
  have bm: "bse ! m = length pre + length (concat (map ?enc run))"
    unfolding bse_def m_def by (rule offsets_nth_length)
  have bdrop: "drop m bse
               = offsets (itemsize cd) (itemsize dd) (length (pre @ concat (map ?enc run))) dw"
    unfolding bse_def m_def by (simp add: offsets_append_drop [of run cd dd _ dw e])
  have L0: "L ! 0 = int (length r * itemsize dd + itemsize cd)"
    by (simp add: L_def run_def f_def)
  have Ldrop: "drop m L = map f dw" by (simp add: L_def m_def)
  have m_le: "m \<le> length bse" "m \<le> length L"
    by (simp_all add: bse_def L_def m_def length_offsets)
  have buf2: "buf = (pre @ concat (map ?enc run)) @ concat (map ?enc dw) @ rest"
    by (simp add: buf_def)
  have first: "read_blocks buf cd dd e bse L ((0, m) # bounds)
         = (case read_blocks buf cd dd e bse L bounds of
              Inl err \<Rightarrow> Inl err
            | Inr blocks \<Rightarrow> Inr (block_of dd run # blocks))" for bounds
    unfolding buf_def
    by (rule read_blocks_first [OF len val_run hd_run b0 bm L0 m_pos])
  have goal: "read_blocks buf cd dd e bse L (block_bounds 0 (changed_ids L) (length (run @ dw)))
              = Inr (block_of dd run # map (block_of dd) (runs dw))"
  proof (cases "dw = []")
    case True
    then have "block_bounds 0 (changed_ids L) (length (run @ dw)) = [(0, m)]"
      by (simp add: ids m_def)
    then show ?thesis using True by (simp only: first) simp
  next
    case False
    have "block_bounds 0 (changed_ids L) (length (run @ dw))
          = (0, m) # block_bounds (0 + m) (map (\<lambda>i. i + m) (changed_ids (map f dw))) (length dw + m)"
      using False by (simp add: ids m_def add.commute)
    also have "\<dots> = (0, m) # map (\<lambda>(a, b). (a + m, b + m))
                          (block_bounds 0 (changed_ids (map f dw)) (length dw))"
      by (simp only: block_bounds_shift)
    finally have bb: "block_bounds 0 (changed_ids L) (length (run @ dw))
          = (0, m) # map (\<lambda>(a, b). (a + m, b + m))
                       (block_bounds 0 (changed_ids (map f dw)) (length dw))" .
    have "read_blocks buf cd dd e bse L
            (map (\<lambda>(a, b). (a + m, b + m)) (block_bounds 0 (changed_ids (map f dw)) (length dw)))
          = read_blocks buf cd dd e (drop m bse) (drop m L)
              (block_bounds 0 (changed_ids (map f dw)) (length dw))"
      by (rule read_blocks_shift [OF m_le])
    also have "\<dots> = Inr (map (block_of dd) (runs dw))"
      unfolding bdrop Ldrop buf2 f_def
      by (rule "2.IH" [of "pre @ concat (map ?enc run)", folded dw_def, OF val_dw False])
    finally show ?thesis by (simp only: bb first) simp
  qed
  have "runs (r # rs) = run # runs dw"
    by (simp add: run_def tw_def dw_def)
  moreover have "pre @ concat (map ?enc (r # rs)) @ rest = buf"
    by (simp only: recs buf_def) simp
  ultimately show ?case
    using goal by (simp only: recs bse_def [symmetric] L_def [symmetric] f_def [symmetric] list.map)
qed

lemma read_binary_list_runs:
  assumes "list_all (valid_row cd dd) recs"
  shows "read_binary_list (concat (map (encode_row e cd dd) recs) @ rest) cd dd (length recs) e
         = Inr (length (concat (map (encode_row e cd dd) recs)), map (block_of dd) (runs recs))"
proof -
  let ?buf = "concat (map (encode_row e cd dd) recs) @ rest"
  let ?bse = "offsets (itemsize cd) (itemsize dd) 0 recs"
  let ?L = "map (\<lambda>r. int (length r * itemsize dd + itemsize cd)) recs"
  have p: "parse_ragged ?buf (itemsize cd) (itemsize dd) e 0 (length recs) = ?bse"
    using parse_ragged_offsets [OF assms, of "[]" e rest] by simp
  have d: "diff (map int ?bse) = ?L" by (rule diff_offsets)
  have l: "length ?bse - 1 = length recs" by (simp add: length_offsets)
  have la: "last ?bse = length (concat (map (encode_row e cd dd) recs))"
    using last_offsets [of cd dd 0 recs e] by simp
  have b: "read_blocks ?buf cd dd e ?bse ?L (block_bounds 0 (changed_ids ?L) (length recs))
           = Inr (map (block_of dd) (runs recs))"
  proof (cases "recs = []")
    case True
    then show ?thesis by (simp add: changed_ids_Nil)
  next
    case False
    show ?thesis using read_blocks_runs [OF assms False, of "[]" e rest] by simp
  qed
  show ?thesis
    unfolding read_binary_list_def Let_def p d l la changed_ids_def [symmetric] b
    by simp
qed

lemma concat_runs: "concat (runs recs) = recs"
  by (induction recs rule: runs.induct) simp_all

lemma runs_homogeneous:
  "\<forall>g\<in>set (runs recs). g \<noteq> [] \<and> (\<forall>x\<in>set g. length x = length (hd g))"
proof (induction recs rule: runs.induct)
  case 1
  show ?case by simp
next
  case (2 r rs)
  let ?tw = "takeWhile (\<lambda>x. length x = length r) rs"
  let ?dw = "dropWhile (\<lambda>x. length x = length r) rs"
  have tw: "\<forall>x\<in>set ?tw. length x = length r"
    using set_takeWhileD [of _ "\<lambda>x. length x = length r" rs] by blast
  show ?case
  proof
    fix g
    assume "g \<in> set (runs (r # rs))"
    then have "g = r # ?tw \<or> g \<in> set (runs ?dw)"
      by (simp only: runs.simps set_simps insert_iff)
    then show "g \<noteq> [] \<and> (\<forall>x\<in>set g. length x = length (hd g))"
    proof
      assume g: "g = r # ?tw"
      show ?thesis unfolding g
      proof (intro conjI ballI)
        show "r # ?tw \<noteq> []" by simp
      next
        fix x
        assume "x \<in> set (r # ?tw)"
        then have "x = r \<or> x \<in> set ?tw" by simp
        with tw have "length x = length r" by blast
        then show "length x = length (hd (r # ?tw))" by simp
      qed
    next
      assume "g \<in> set (runs ?dw)"
      with "2.IH" show ?thesis by blast
    qed
  qed
qed

lemma hd_runs: "recs \<noteq> [] \<Longrightarrow> hd (hd (runs recs)) = hd recs"
  by (cases recs) simp_all

lemma runs_Nil_iff: "runs recs = [] \<longleftrightarrow> recs = []"
  by (cases recs) simp_all

lemma runs_maximal: "distinct_adj (map (\<lambda>g. length (hd g)) (runs recs))"
proof (induction recs rule: runs.induct)
  case 1
  then show ?case by simp
next
  case (2 r rs)
  let ?dw = "dropWhile (\<lambda>x. length x = length r) rs"
  show ?case
  proof (cases "?dw = []")
    case True
    have "runs (r # rs) = [r # takeWhile (\<lambda>x. length x = length r) rs]"
      by (simp only: runs.simps True)
    then show ?thesis by simp
  next
    case False
    then have "length (hd ?dw) \<noteq> length r"
      using hd_dropWhile [of "\<lambda>x. length x = length r" rs] by simp
    moreover have "hd (hd (runs ?dw)) = hd ?dw" using False by (rule hd_runs)
    moreover have "runs ?dw \<noteq> []" using False by (simp add: runs_Nil_iff)
    ultimately show ?thesis using "2.IH"
      by (simp add: distinct_adj_Cons hd_map)
  qed
qed

lemma runs_example:
  assumes "map length recs = [3, 3, 3, 4, 4, 5]"
  shows "map (\<lambda>g. (length (hd g), length g)) (runs recs) = [(3, 3), (4, 2), (5, 1)]"
proof -
  from assms obtain a r1 where 1: "recs = a # r1" "length a = 3" "map length r1 = [3, 3, 4, 4, 5]"
    by (cases recs) auto
  from 1(3) obtain b r2 where 2: "r1 = b # r2" "length b = 3" "map length r2 = [3, 4, 4, 5]"
    by (cases r1) auto
  from 2(3) obtain c r3 where 3: "r2 = c # r3" "length c = 3" "map length r3 = [4, 4, 5]"
    by (cases r2) auto
  from 3(3) obtain d r4 where 4: "r3 = d # r4" "length d = 4" "map length r4 = [4, 5]"
    by (cases r3) auto
  from 4(3) obtain e r5 where 5: "r4 = e # r5" "length e = 4" "map length r5 = [5]"
    by (cases r4) auto
  from 5(3) obtain f where 6: "r5 = [f]" "length f = 5"
    by (cases r5) auto
  show ?thesis
    by (simp add: 1 2 3 4 5 6)
qed

lemma example_valid: "list_all (valid_row UInt8 Int32) example_records"
  by (simp add: example_records_def valid_row_def in_range_def)

lemma example_lengths: "map length example_records = [3, 3, 3, 4, 4, 5]"
  by (simp add: example_records_def)

lemma example_decoded:
  "read_binary_list example_buffer UInt8 Int32 6 Little =
     Inr (94,
       [\<lparr>cell_type = ''triangle'',
         data = \<lparr>dtype = Int32, shape1 = 3, tolist = [[0, 1, 2], [0, 2, 3], [0, 3, 4]]\<rparr>\<rparr>,
        \<lparr>cell_type = ''quad'',
         data = \<lparr>dtype = Int32, shape1 = 4, tolist = [[4, 5, 6, 7], [5, 6, 7, 8]]\<rparr>\<rparr>,
        \<lparr>cell_type = ''polygon5'',
         data = \<lparr>dtype = Int32, shape1 = 5, tolist = [[0, 1, 5, 6, 4]]\<rparr>\<rparr>])"
  by code_simp

lemma runs_tags_counts:
  "tags (map (block_of dd) (runs recs))
     = map (\<lambda>p. cell_type_from_count (int (fst p))) (map (\<lambda>g. (length (hd g), length g)) (runs recs)) \<and>
   row_counts (map (block_of dd) (runs recs))
     = map snd (map (\<lambda>g. (length (hd g), length g)) (runs recs))"
  by (simp add: tags_def row_counts_def block_of_def shape0_def comp_def)

lemma polygon5: "cell_type_from_count 5 = ''polygon5''"
  by code_simp

text \<open>
  Claim C2, amended. For every buffer that holds \<open>num_records\<close> valid count-prefixed records
  (followed by anything), the decoder returns one block per maximal consecutive run of rows
  of equal length, in file order, each tagged by its row length, and returns as offset the
  exact byte length of all records; no record gives no block. The runs partition the records,
  each run is non-empty and of one row length, and adjacent runs differ in row length. For
  records of lengths 3, 3, 3, 4, 4, 5 the tags are triangle, quad, polygon5 and the row counts
  are 3, 2, 1.
\<close>

theorem ragged_decode_runs:
  assumes "list_all (valid_row cd dd) recs"
  shows "read_binary_list (concat (map (encode_row e cd dd) recs) @ rest) cd dd (length recs) e
           = Inr (length (concat (map (encode_row e cd dd) recs)),
                  map (block_of dd) (runs recs)) \<and>
         concat (runs recs) = recs \<and>
         (\<forall>g\<in>set (runs recs). g \<noteq> [] \<and> (\<forall>x\<in>set g. length x = length (hd g))) \<and>
         distinct_adj (map (\<lambda>g. length (hd g)) (runs recs)) \<and>
         (recs = [] \<longrightarrow> runs recs = []) \<and>
         (map length recs = [3, 3, 3, 4, 4, 5] \<longrightarrow>
            tags (map (block_of dd) (runs recs)) = [''triangle'', ''quad'', ''polygon5''] \<and>
            row_counts (map (block_of dd) (runs recs)) = [3, 2, 1])"
proof -
  have ex: "tags (map (block_of dd) (runs recs)) = [''triangle'', ''quad'', ''polygon5''] \<and>
            row_counts (map (block_of dd) (runs recs)) = [3, 2, 1]"
    if "map length recs = [3, 3, 3, 4, 4, 5]"
    using runs_tags_counts [of dd recs] runs_example [OF that]
    by (simp add: cell_type_from_count_small polygon5)
  show ?thesis
    using read_binary_list_runs [OF assms, of e rest] concat_runs [of recs]
      runs_homogeneous [of recs] runs_maximal [of recs] runs_Nil_iff [of recs] ex
    by blast
qed

theorem ragged_decode_runs_witness:
  "list_all (valid_row UInt8 Int32) example_records \<and>
   map length example_records = [3, 3, 3, 4, 4, 5] \<and>
   set (runs example_records) \<noteq> {} \<and>
   tags (blocks_of (read_binary_list example_buffer UInt8 Int32 (length example_records) Little))
     = [''triangle'', ''quad'', ''polygon5''] \<and>
   row_counts (blocks_of (read_binary_list example_buffer UInt8 Int32 (length example_records) Little))
     = [3, 2, 1]"
proof -
  note t = ragged_decode_runs [OF example_valid, of Little "[]"]
  from t have r: "read_binary_list example_buffer UInt8 Int32 (length example_records) Little
      = Inr (length example_buffer, map (block_of Int32) (runs example_records))"
    by (simp add: example_buffer_def)
  from t example_lengths have
    "tags (map (block_of Int32) (runs example_records)) = [''triangle'', ''quad'', ''polygon5'']"
    "row_counts (map (block_of Int32) (runs example_records)) = [3, 2, 1]"
    by blast+
  then have
    "tags (blocks_of (read_binary_list example_buffer UInt8 Int32 (length example_records) Little))
       = [''triangle'', ''quad'', ''polygon5'']"
    "row_counts (blocks_of (read_binary_list example_buffer UInt8 Int32 (length example_records) Little))
       = [3, 2, 1]"
    by (simp_all add: r blocks_of_def)
  moreover have "set (runs example_records) \<noteq> {}"
    by (simp add: example_records_def)
  ultimately show ?thesis
    using example_valid example_lengths by blast
qed

text \<open>
  Claim C2 as stated gives the row counts 3, 1, 2 for the records of lengths 3, 3, 3, 4, 4, 5;
  the decoder returns three triangles, two quads and one pentagon.
\<close>

theorem ragged_decode_counts_counterexample:
  "list_all (valid_row UInt8 Int32) example_records \<and>
   map length example_records = [3, 3, 3, 4, 4, 5] \<and>
   example_buffer = concat (map (encode_row Little UInt8 Int32) example_records) \<and>
   row_counts (blocks_of (read_binary_list example_buffer UInt8 Int32 6 Little)) = [3, 2, 1] \<and>
   row_counts (blocks_of (read_binary_list example_buffer UInt8 Int32 6 Little)) \<noteq> [3, 1, 2]"
  using example_valid example_lengths
  by (simp add: example_buffer_def [symmetric] example_decoded blocks_of_def row_counts_def
      shape0_def)
section \<open>Format resolution, dispatch and shape validation\<close>

lemma lower_append: "lower (a @ b) = lower a @ lower b"
  by (simp add: lower_def)

lemma lower_char_idem: "lower_char (lower_char c) = lower_char c"
  by (simp add: lower_char_def)

lemma lower_idem: "lower (lower s) = lower s"
  by (simp add: lower_def lower_char_idem)

lemma find_append: "find P (xs @ ys) = (case find P xs of Some x \<Rightarrow> Some x | None \<Rightarrow> find P ys)"
  by (induction xs) simp_all

lemma filetype_loop_find:
  "filetype_loop table (rev pre) (lower (concat post)) out
   = (lower (concat (pre @ post)),
      case find (\<lambda>ext. table ext \<noteq> None)
             (map (\<lambda>k. lower (concat (drop k pre @ post))) [0..<length pre]) of
        Some ext \<Rightarrow> table ext
      | None \<Rightarrow> out)"
proof (induction pre arbitrary: post out rule: rev_induct)
  case Nil
  then show ?case by simp
next
  case (snoc s pre)
  let ?ext = "lower (concat (s # post))"
  let ?out = "case table ?ext of Some filetype \<Rightarrow> Some filetype | None \<Rightarrow> out"
  have e: "lower (s @ lower (concat post)) = ?ext"
    by (simp add: lower_append lower_idem)
  have c: "map (\<lambda>k. lower (concat (drop k (pre @ [s]) @ post))) [0..<length (pre @ [s])]
           = map (\<lambda>k. lower (concat (drop k pre @ s # post))) [0..<length pre] @ [?ext]"
    by simp
  have "filetype_loop table (rev (pre @ [s])) (lower (concat post)) out
        = filetype_loop table (rev pre) ?ext ?out"
    by (simp add: e Let_def)
  also have "\<dots> = (lower (concat (pre @ s # post)),
      case find (\<lambda>ext. table ext \<noteq> None)
             (map (\<lambda>k. lower (concat (drop k pre @ s # post))) [0..<length pre]) of
        Some ext \<Rightarrow> table ext
      | None \<Rightarrow> ?out)"
    by (rule snoc.IH)
  finally show ?case
    by (simp only: c find_append) (auto split: option.splits)
qed

lemma filetype_from_path_resolve:
  "filetype_from_path table path = resolve_format table path"
proof -
  have l: "filetype_loop table (rev (suffixes path)) [] None
        = (lower (concat (suffixes path)),
           case find (\<lambda>ext. table ext \<noteq> None) (accumulated (suffixes path)) of
             Some ext \<Rightarrow> table ext | None \<Rightarrow> None)"
    using filetype_loop_find [of table "suffixes path" "[]" None]
    by (simp add: accumulated_def lower_def)
  show ?thesis
  proof (cases "find (\<lambda>ext. table ext \<noteq> None) (accumulated (suffixes path))")
    case None
    then show ?thesis by (simp add: filetype_from_path_def resolve_format_def l)
  next
    case (Some ext)
    then have "table ext \<noteq> None" by (auto dest: find_Some_iff [THEN iffD1])
    then obtain ft where "table ext = Some ft" by auto
    with Some show ?thesis by (simp add: filetype_from_path_def resolve_format_def l)
  qed
qed

lemma accumulated_alt:
  "accumulated sfx = map (\<lambda>k. concat (drop k (map lower sfx))) [0..<length (map lower sfx)]"
  by (simp add: accumulated_def lower_def [abs_def] drop_map map_concat)

lemma lower_concat: "lower (concat sfx) = concat (map lower sfx)"
  by (simp add: lower_def [abs_def] map_concat)

lemma resolve_format_case_insensitive:
  assumes "map lower (suffixes p) = map lower (suffixes q)"
  shows "resolve_format table p = resolve_format table q"
proof -
  have "accumulated (suffixes p) = accumulated (suffixes q)"
    by (simp only: accumulated_alt assms)
  moreover have "lower (concat (suffixes p)) = lower (concat (suffixes q))"
    by (simp only: lower_concat assms)
  ultimately show ?thesis by (simp only: resolve_format_def)
qed

lemma register_ply_extension:
  "extension_to_filetype (register ''ply'' [''.ply''] r ws reg)
   = (extension_to_filetype reg)(''.ply'' \<mapsto> ''ply'')"
  by (simp add: register_def)

lemma suffixes_mesh_ply: "suffixes ''mesh.ply'' = [''.ply'']"
  by code_simp

lemma suffixes_mesh_unknown: "suffixes ''mesh.unknown'' = [''.unknown'']"
  by code_simp

lemma suffixes_upper: "suffixes ''Mesh.VTU.GZ'' = [''.VTU'', ''.GZ'']"
  by code_simp

lemma lower_ply: "lower ''.ply'' = ''.ply''" "lower ''.unknown'' = ''.unknown''"
  by code_simp+

lemma resolve_mesh_ply:
  "filetype_from_path (extension_to_filetype (register ''ply'' [''.ply''] r ws reg)) ''mesh.ply''
   = Inr ''ply''"
  by (simp add: filetype_from_path_def suffixes_mesh_ply lower_ply register_ply_extension)

lemma resolve_mesh_unknown:
  assumes "extension_to_filetype reg ''.unknown'' = None"
  shows "filetype_from_path (extension_to_filetype (register ''ply'' [''.ply''] r ws reg))
           ''mesh.unknown''
         = Inl (ReadError (''Could not deduce file format from extension '' @ [CHR 0x27]
                           @ ''.unknown'' @ [CHR 0x27] @ ''.''))"
  using assms
  by (simp add: filetype_from_path_def suffixes_mesh_unknown lower_ply register_ply_extension)

lemma read_buffer_no_format:
  "meshio_read fs reg (Buffer b) None
   = Inl (ReadError ''File format must be given if buffer is used'')"
  by (simp add: meshio_read_def)

lemma read_buffer_tetgen:
  "meshio_read fs reg (Buffer b) (Some ''tetgen'')
   = Inl (ReadError (''tetgen format is spread across multiple files ''
                     @ ''and so cannot be read from a buffer''))"
  by (simp add: meshio_read_def)

lemma read_buffer_dispatch:
  assumes "fmt \<noteq> ''tetgen''" "reader_map reg fmt = Some reader"
  shows "meshio_read fs reg (Buffer b) (Some fmt) = reader (Buffer b)"
  using assms by (simp add: meshio_read_def)

lemma read_buffer_unknown:
  assumes "fmt \<noteq> ''tetgen''" "reader_map reg fmt = None"
  shows "meshio_read fs reg (Buffer b) (Some fmt)
         = Inl (ReadError (''Unknown file format '' @ [CHR 0x27] @ fmt @ [CHR 0x27]))"
  using assms by (simp add: meshio_read_def)

lemma read_buffer_ply:
  "meshio_read fs (register ''ply'' [''.ply''] (Some reader) ws reg) (Buffer b) (Some ''ply'')
   = reader (Buffer b)"
  by (rule read_buffer_dispatch) (simp_all add: register_def)

lemma read_path_not_found:
  assumes "fs p = None"
  shows "meshio_read fs reg (Path p) file_format
         = Inl (ReadError (''File '' @ p @ '' not found.''))"
  using assms by (simp add: meshio_read_def)

lemma check_block_polygon:
  assumes "take 7 (cell_type b) = ''polygon''" "py_int (drop 7 (cell_type b)) = Some n"
  shows "(int (shape1 (data b)) = n \<longrightarrow> check_block nn b = None) \<and>
         (int (shape1 (data b)) \<noteq> n \<longrightarrow>
            (\<exists>err. check_block nn b = Some err \<and> is_WriteError err))"
  using assms by (simp add: check_block_def Let_def)

lemma check_block_malformed:
  assumes "take 7 (cell_type b) = ''polygon''" "py_int (drop 7 (cell_type b)) = None"
  shows "\<exists>err. check_block nn b = Some err \<and> is_ValueError err"
  using assms by (simp add: check_block_def Let_def)

lemma check_block_known:
  assumes "take 7 (cell_type b) \<noteq> ''polygon''" "nn (cell_type b) = Some k"
  shows "(shape1 (data b) = k \<longrightarrow> check_block nn b = None) \<and>
         (shape1 (data b) \<noteq> k \<longrightarrow>
            (\<exists>err. check_block nn b = Some err \<and> is_WriteError err))"
  using assms by (simp add: check_block_def Let_def)

lemma check_block_custom:
  assumes "take 7 (cell_type b) \<noteq> ''polygon''" "nn (cell_type b) = None"
  shows "check_block nn b = None"
  using assms by (simp add: check_block_def Let_def)

lemma check_cells_find:
  "check_cells nn blocks
   = (case find (\<lambda>b. check_block nn b \<noteq> None) blocks of
        None \<Rightarrow> None
      | Some b \<Rightarrow> check_block nn b)"
  by (induction blocks) (auto split: option.splits)

lemma check_cells_None: "check_cells nn blocks = None \<longleftrightarrow> (\<forall>b\<in>set blocks. check_block nn b = None)"
  by (induction blocks) (auto split: option.splits)

lemma write_buffer_checked:
  assumes "fmt \<noteq> ''tetgen''" "writer_map reg fmt = Some writer"
  shows "meshio_write nn reg (Buffer b) mesh (Some fmt) kwargs
         = (case check_cells nn (cells mesh) of
              Some err \<Rightarrow> Inl err
            | None \<Rightarrow> Inr (writer (Buffer b) mesh kwargs))"
  using assms by (simp add: meshio_write_def)

lemma write_path_checked:
  assumes "fmt \<noteq> []" "writer_map reg fmt = Some writer"
  shows "meshio_write nn reg (Path p) mesh (Some fmt) kwargs
         = (case check_cells nn (cells mesh) of
              Some err \<Rightarrow> Inl err
            | None \<Rightarrow> Inr (writer (Path p) mesh kwargs))"
  using assms by (simp add: meshio_write_def)

lemma write_path_deduced:
  assumes "file_format = None \<or> file_format = Some []"
    "filetype_from_path (extension_to_filetype reg) p = Inr fmt"
    "writer_map reg fmt = Some writer"
  shows "meshio_write nn reg (Path p) mesh file_format kwargs
         = (case check_cells nn (cells mesh) of
              Some err \<Rightarrow> Inl err
            | None \<Rightarrow> Inr (writer (Path p) mesh kwargs))"
  using assms by (auto simp: meshio_write_def)

lemma write_path_not_deduced:
  assumes "file_format = None \<or> file_format = Some []"
    "filetype_from_path (extension_to_filetype reg) p = Inl err"
  shows "meshio_write nn reg (Path p) mesh file_format kwargs = Inl err"
  using assms by (auto simp: meshio_write_def)

lemma write_no_writer:
  assumes "(is_buffer dest \<and> file_format = Some fmt \<and> fmt \<noteq> ''tetgen'') \<or>
           (\<not> is_buffer dest \<and> file_format = Some fmt \<and> fmt \<noteq> []) \<or>
           (\<not> is_buffer dest \<and> (file_format = None \<or> file_format = Some []) \<and>
            filetype_from_path (extension_to_filetype reg) (source_str dest) = Inr fmt)"
    "writer_map reg fmt = None"
  shows "meshio_write nn reg dest mesh file_format kwargs
         = Inl (WriteError (''Unknown format '' @ [CHR 0x27] @ fmt @ [CHR 0x27] @ ''.''))"
  using assms by (cases dest) (auto simp: meshio_write_def)

lemma py_int_5: "py_int ''5'' = Some 5"
  by code_simp

lemma check_quad_5:
  assumes "nn ''quad'' = Some 4"
  shows "check_block nn \<lparr>cell_type = ''quad'', data = \<lparr>dtype = d, shape1 = 5, tolist = rows\<rparr>\<rparr>
         = Some (WriteError ''Unexpected cells array shape for quad cells.'')"
  using assms by (simp add: check_block_def)

lemma check_polygon5_5:
  "check_block nn \<lparr>cell_type = ''polygon5'', data = \<lparr>dtype = d, shape1 = 5, tolist = rows\<rparr>\<rparr>
   = None"
  by (simp add: check_block_def py_int_5)

lemma check_customXYZ:
  assumes "nn ''customXYZ'' = None"
  shows "check_block nn \<lparr>cell_type = ''customXYZ'', data = \<lparr>dtype = d, shape1 = w, tolist = rows\<rparr>\<rparr>
         = None"
  using assms by (simp add: check_block_def)

text \<open>
  Claim C6. Format resolution walks the suffixes of the path from the rightmost one inward,
  accumulating multi-part extensions in lower case, and returns the format of the longest
  accumulated extension that is registered; when none is registered it fails with the error
  that the format cannot be deduced. Paths whose suffixes differ only in case resolve alike.
  With the PLY codec registered, \<open>mesh.ply\<close> resolves to \<open>ply\<close>, and \<open>mesh.unknown\<close> fails when
  nothing registered \<open>.unknown\<close>.
\<close>

theorem format_resolution:
  "filetype_from_path table path = resolve_format table path \<and>
   (map lower (suffixes path) = map lower (suffixes path') \<longrightarrow>
      filetype_from_path table path = filetype_from_path table path') \<and>
   filetype_from_path (extension_to_filetype (register ''ply'' [''.ply''] r ws reg)) ''mesh.ply''
     = Inr ''ply'' \<and>
   (extension_to_filetype reg ''.unknown'' = None \<longrightarrow>
      filetype_from_path (extension_to_filetype (register ''ply'' [''.ply''] r ws reg))
        ''mesh.unknown''
      = Inl (ReadError (''Could not deduce file format from extension '' @ [CHR 0x27]
                        @ ''.unknown'' @ [CHR 0x27] @ ''.'')))"
proof -
  have "filetype_from_path table path = filetype_from_path table path'"
    if "map lower (suffixes path) = map lower (suffixes path')"
    using resolve_format_case_insensitive [OF that, of table]
    by (simp only: filetype_from_path_resolve)
  then show ?thesis
    using filetype_from_path_resolve [of table path] resolve_mesh_ply [of r ws reg]
      resolve_mesh_unknown [of reg r ws]
    by blast
qed

theorem format_resolution_witness:
  "map lower (suffixes ''Mesh.VTU.GZ'') = map lower (suffixes ''mesh.vtu.gz'') \<and>
   filetype_from_path [''.gz'' \<mapsto> ''gzip'', ''.vtu.gz'' \<mapsto> ''vtu''] ''Mesh.VTU.GZ''
     = filetype_from_path [''.gz'' \<mapsto> ''gzip'', ''.vtu.gz'' \<mapsto> ''vtu''] ''mesh.vtu.gz'' \<and>
   filetype_from_path [''.gz'' \<mapsto> ''gzip'', ''.vtu.gz'' \<mapsto> ''vtu''] ''mesh.vtu.gz'' = Inr ''vtu'' \<and>
   extension_to_filetype (empty_registry :: (unit, unit) registry) ''.unknown'' = None \<and>
   filetype_from_path
     (extension_to_filetype (register ''ply'' [''.ply''] None [] (empty_registry :: (unit, unit) registry)))
     ''mesh.unknown''
   = Inl (ReadError (''Could not deduce file format from extension '' @ [CHR 0x27]
                        @ ''.unknown'' @ [CHR 0x27] @ ''.''))"
proof -
  note t = format_resolution [of "[''.gz'' \<mapsto> ''gzip'', ''.vtu.gz'' \<mapsto> ''vtu'']"
      "''Mesh.VTU.GZ''" "''mesh.vtu.gz''" None "[]" "empty_registry :: (unit, unit) registry"]
  have a: "map lower (suffixes ''Mesh.VTU.GZ'') = map lower (suffixes ''mesh.vtu.gz'')"
    by code_simp
  have b: "extension_to_filetype (empty_registry :: (unit, unit) registry) ''.unknown'' = None"
    by (simp add: empty_registry_def)
  have c: "filetype_from_path [''.gz'' \<mapsto> ''gzip'', ''.vtu.gz'' \<mapsto> ''vtu''] ''mesh.vtu.gz''
           = Inr ''vtu''"
    by code_simp
  from t a have d:
    "filetype_from_path [''.gz'' \<mapsto> ''gzip'', ''.vtu.gz'' \<mapsto> ''vtu''] ''Mesh.VTU.GZ''
     = filetype_from_path [''.gz'' \<mapsto> ''gzip'', ''.vtu.gz'' \<mapsto> ''vtu''] ''mesh.vtu.gz''"
    by blast
  from t b have e: "filetype_from_path
     (extension_to_filetype (register ''ply'' [''.ply''] None [] (empty_registry :: (unit, unit) registry)))
     ''mesh.unknown''
   = Inl (ReadError (''Could not deduce file format from extension '' @ [CHR 0x27]
                        @ ''.unknown'' @ [CHR 0x27] @ ''.''))"
    by blast
  from a d c b e show ?thesis by blast
qed

text \<open>
  Claim C7. Reading from a buffer fails when no format is given and fails for the format
  \<open>tetgen\<close>; for any other format it calls the reader registered under that format on the
  buffer and returns what the reader returns (for \<open>ply\<close>, once the PLY codec is registered,
  the PLY reader), and it fails with the unknown-format error when no reader is registered.
  Reading from a path that does not exist fails with the not-found error.
\<close>

theorem read_dispatch:
  "meshio_read fs reg (Buffer b) None
     = Inl (ReadError ''File format must be given if buffer is used'') \<and>
   meshio_read fs reg (Buffer b) (Some ''tetgen'')
     = Inl (ReadError (''tetgen format is spread across multiple files ''
                       @ ''and so cannot be read from a buffer'')) \<and>
   (fmt \<noteq> ''tetgen'' \<and> reader_map reg fmt = Some reader \<longrightarrow>
      meshio_read fs reg (Buffer b) (Some fmt) = reader (Buffer b)) \<and>
   (fmt \<noteq> ''tetgen'' \<and> reader_map reg fmt = None \<longrightarrow>
      meshio_read fs reg (Buffer b) (Some fmt)
      = Inl (ReadError (''Unknown file format '' @ [CHR 0x27] @ fmt @ [CHR 0x27]))) \<and>
   meshio_read fs (register ''ply'' [''.ply''] (Some ply_reader) ws reg) (Buffer b) (Some ''ply'')
     = ply_reader (Buffer b) \<and>
   (fs p = None \<longrightarrow>
      meshio_read fs reg (Path p) file_format
      = Inl (ReadError (''File '' @ p @ '' not found.'')))"
  using read_buffer_no_format [of fs reg b] read_buffer_tetgen [of fs reg b]
    read_buffer_dispatch [of fmt reg reader fs b] read_buffer_unknown [of fmt reg fs b]
    read_buffer_ply [of fs ply_reader ws reg b] read_path_not_found [of fs p reg file_format]
  by blast

theorem read_dispatch_witness:
  "meshio_read Map.empty
     (register ''ply'' [''.ply''] (Some Inr) []
        (empty_registry :: (source \<Rightarrow> error + source, unit) registry))
     (Buffer ''ply'') (Some ''ply'') = Inr (Buffer ''ply'') \<and>
   meshio_read Map.empty
     (register ''ply'' [''.ply''] (Some Inr) []
        (empty_registry :: (source \<Rightarrow> error + source, unit) registry))
     (Buffer ''ply'') (Some ''vtk'')
     = Inl (ReadError (''Unknown file format '' @ [CHR 0x27] @ ''vtk'' @ [CHR 0x27])) \<and>
   meshio_read Map.empty
     (register ''ply'' [''.ply''] (Some Inr) []
        (empty_registry :: (source \<Rightarrow> error + source, unit) registry))
     (Path ''nofile.ply'') None = Inl (ReadError (''File '' @ ''nofile.ply'' @ '' not found.''))"
proof -
  let ?reg = "register ''ply'' [''.ply''] (Some Inr) []
                (empty_registry :: (source \<Rightarrow> error + source, unit) registry)"
  have r: "reader_map ?reg ''ply'' = Some Inr" "reader_map ?reg ''vtk'' = None"
    by (simp_all add: register_def empty_registry_def)
  have n: "''ply'' \<noteq> ''tetgen''" "''vtk'' \<noteq> ''tetgen''" by simp_all
  from read_dispatch [of Map.empty ?reg "''ply''" "''ply''" Inr] r n
  have a: "meshio_read Map.empty ?reg (Buffer ''ply'') (Some ''ply'') = Inr (Buffer ''ply'')"
    by blast
  from read_dispatch [of Map.empty ?reg "''ply''" "''vtk''"] r n
  have b: "meshio_read Map.empty ?reg (Buffer ''ply'') (Some ''vtk'')
           = Inl (ReadError (''Unknown file format '' @ [CHR 0x27] @ ''vtk'' @ [CHR 0x27]))"
    by blast
  have f: "(Map.empty :: filesystem) ''nofile.ply'' = None" by simp
  from read_dispatch [of Map.empty ?reg _ _ _ _ _ "''nofile.ply''" None] f
  have c: "meshio_read Map.empty ?reg (Path ''nofile.ply'') None
           = Inl (ReadError (''File '' @ ''nofile.ply'' @ '' not found.''))"
    by blast
  from a b c show ?thesis by blast
qed

text \<open>
  Claim C3. The write entry point, once it has found the writer, checks every cell block in
  order and fails at the first block that does not pass: a block whose tag is \<open>polygon\<close>
  followed by an integer N fails with a WriteError unless its row width is N, and with a
  ValueError when what follows \<open>polygon\<close> is not an integer; a block with any other tag of the
  table of node counts fails with a WriteError unless its row width is the count of the table;
  a block with any other tag passes unchecked. When every block passes, the writer is called
  with the destination, the mesh and the options. This holds however the format was found:
  given for a buffer, given for a path, or deduced from the extension of the path when no
  format (or the empty one) is given. So \<open>quad\<close> with row width 5 fails, \<open>polygon5\<close> with
  row width 5 passes, and \<open>customXYZ\<close> passes with any width.
\<close>

theorem write_shape_validation:
  "(take 7 (cell_type b) = ''polygon'' \<and> py_int (drop 7 (cell_type b)) = Some n \<longrightarrow>
      (int (shape1 (data b)) = n \<longrightarrow> check_block nn b = None) \<and>
      (int (shape1 (data b)) \<noteq> n \<longrightarrow>
         (\<exists>err. check_block nn b = Some err \<and> is_WriteError err))) \<and>
   (take 7 (cell_type b) = ''polygon'' \<and> py_int (drop 7 (cell_type b)) = None \<longrightarrow>
      (\<exists>err. check_block nn b = Some err \<and> is_ValueError err)) \<and>
   (take 7 (cell_type b) \<noteq> ''polygon'' \<and> nn (cell_type b) = Some k \<longrightarrow>
      (shape1 (data b) = k \<longrightarrow> check_block nn b = None) \<and>
      (shape1 (data b) \<noteq> k \<longrightarrow>
         (\<exists>err. check_block nn b = Some err \<and> is_WriteError err))) \<and>
   (take 7 (cell_type b) \<noteq> ''polygon'' \<and> nn (cell_type b) = None \<longrightarrow>
      check_block nn b = None) \<and>
   check_cells nn blocks
     = (case find (\<lambda>b. check_block nn b \<noteq> None) blocks of
          None \<Rightarrow> None
        | Some b \<Rightarrow> check_block nn b) \<and>
   (fmt \<noteq> ''tetgen'' \<and> writer_map reg fmt = Some writer \<longrightarrow>
      meshio_write nn reg (Buffer dest) mesh (Some fmt) kwargs
      = (case check_cells nn (cells mesh) of
           Some err \<Rightarrow> Inl err
         | None \<Rightarrow> Inr (writer (Buffer dest) mesh kwargs))) \<and>
   (fmt \<noteq> [] \<and> writer_map reg fmt = Some writer \<longrightarrow>
      meshio_write nn reg (Path p) mesh (Some fmt) kwargs
      = (case check_cells nn (cells mesh) of
           Some err \<Rightarrow> Inl err
         | None \<Rightarrow> Inr (writer (Path p) mesh kwargs))) \<and>
   ((file_format = None \<or> file_format = Some []) \<and>
    filetype_from_path (extension_to_filetype reg) p = Inr fmt \<and>
    writer_map reg fmt = Some writer \<longrightarrow>
      meshio_write nn reg (Path p) mesh file_format kwargs
      = (case check_cells nn (cells mesh) of
           Some err \<Rightarrow> Inl err
         | None \<Rightarrow> Inr (writer (Path p) mesh kwargs)))"
  using check_block_polygon [of b n nn] check_block_malformed [of b nn]
    check_block_known [of b nn k] check_block_custom [of b nn] check_cells_find [of nn blocks]
    write_buffer_checked [of fmt reg writer nn dest mesh kwargs]
    write_path_checked [of fmt reg writer nn p mesh kwargs]
    write_path_deduced [of file_format reg p fmt writer nn mesh kwargs]
  by blast

lemma py_int_examples:
  "py_int (drop 7 ''polygon5'') = Some 5" "py_int (drop 7 ''polygonal'') = None"
  "py_int (drop 7 (''polygon5'' @ [CHR 0x1C])) = None"
  by code_simp+

lemma suffixes_out_ply: "suffixes ''out.ply'' = [''.ply'']"
  by code_simp

lemma resolve_out_ply:
  "filetype_from_path (extension_to_filetype (register ''ply'' [''.ply''] r ws reg)) ''out.ply''
   = Inr ''ply''"
  by (simp add: filetype_from_path_def suffixes_out_ply lower_ply register_ply_extension)

theorem write_shape_validation_witness:
  "take 7 ''polygon5'' = ''polygon'' \<and> py_int (drop 7 ''polygon5'') = Some 5 \<and>
   check_block [''quad'' \<mapsto> 4] (example_block ''polygon5'' 5) = None \<and>
   (\<exists>err. check_block [''quad'' \<mapsto> 4] (example_block ''polygon5'' 4) = Some err \<and> is_WriteError err) \<and>
   py_int (drop 7 ''polygonal'') = None \<and>
   (\<exists>err. check_block [''quad'' \<mapsto> 4] (example_block ''polygonal'' 5) = Some err \<and> is_ValueError err) \<and>
   py_int (drop 7 (''polygon5'' @ [CHR 0x1C])) = None \<and>
   (\<exists>err. check_block [''quad'' \<mapsto> 4] (example_block (''polygon5'' @ [CHR 0x1C]) 5) = Some err \<and>
      is_ValueError err) \<and>
   [''quad'' \<mapsto> (4::nat)] ''quad'' = Some 4 \<and>
   (\<exists>err. check_block [''quad'' \<mapsto> 4] (example_block ''quad'' 5) = Some err \<and> is_WriteError err) \<and>
   check_block [''quad'' \<mapsto> 4] (example_block ''quad'' 4) = None \<and>
   [''quad'' \<mapsto> (4::nat)] ''customXYZ'' = None \<and>
   check_block [''quad'' \<mapsto> 4] (example_block ''customXYZ'' 7) = None \<and>
   meshio_write [''quad'' \<mapsto> 4]
     (register ''ply'' [''.ply''] (None :: unit option) [(''ply'', \<lambda>dest mesh kwargs. cells mesh)]
        empty_registry)
     (Buffer []) (example_mesh [example_block ''polygon5'' 5, example_block ''quad'' 5])
     (Some ''ply'') True
   = Inl (WriteError ''Unexpected cells array shape for quad cells.'') \<and>
   meshio_write [''quad'' \<mapsto> 4]
     (register ''ply'' [''.ply''] (None :: unit option) [(''ply'', \<lambda>dest mesh kwargs. cells mesh)]
        empty_registry)
     (Path ''out.ply'') (example_mesh [example_block ''polygon5'' 5, example_block ''customXYZ'' 7])
     (Some ''ply'') True
   = Inr [example_block ''polygon5'' 5, example_block ''customXYZ'' 7] \<and>
   filetype_from_path
     (extension_to_filetype
        (register ''ply'' [''.ply''] (None :: unit option)
           [(''ply'', \<lambda>(dest::source) (mesh::Mesh) (kwargs::bool). cells mesh)] empty_registry))
     ''out.ply'' = Inr ''ply'' \<and>
   meshio_write [''quad'' \<mapsto> 4]
     (register ''ply'' [''.ply''] (None :: unit option) [(''ply'', \<lambda>dest mesh kwargs. cells mesh)]
        empty_registry)
     (Path ''out.ply'') (example_mesh [example_block ''polygon5'' 5, example_block ''quad'' 5])
     None True
   = Inl (WriteError ''Unexpected cells array shape for quad cells.'') \<and>
   meshio_write [''quad'' \<mapsto> 4]
     (register ''ply'' [''.ply''] (None :: unit option) [(''ply'', \<lambda>dest mesh kwargs. cells mesh)]
        empty_registry)
     (Path ''out.ply'') (example_mesh [example_block ''polygon5'' 5, example_block ''customXYZ'' 7])
     (Some []) True
   = Inr [example_block ''polygon5'' 5, example_block ''customXYZ'' 7]"
proof -
  let ?nn = "[''quad'' \<mapsto> (4::nat)]"
  let ?w = "\<lambda>(dest::source) (mesh::Mesh) (kwargs::bool). cells mesh"
  let ?reg = "register ''ply'' [''.ply''] (None :: unit option) [(''ply'', ?w)] empty_registry"
  have ct: "cell_type (example_block tag w) = tag" "shape1 (data (example_block tag w)) = w"
    for tag w by (simp_all add: example_block_def)
  have p: "take 7 ''polygon5'' = ''polygon''" "take 7 ''polygonal'' = ''polygon''"
    "take 7 (''polygon5'' @ [CHR 0x1C]) = ''polygon''"
    "take 7 ''quad'' \<noteq> ''polygon''" "take 7 ''customXYZ'' \<noteq> ''polygon''"
    by simp_all
  have nn: "?nn ''quad'' = Some 4" "?nn ''customXYZ'' = None" by simp_all
  let ?M = "example_mesh [example_block ''polygon5'' 5, example_block ''quad'' 5]"
  let ?M' = "example_mesh [example_block ''polygon5'' 5, example_block ''customXYZ'' 7]"
  note t = write_shape_validation [where nn = ?nn and blocks = "[]" and fmt = "''ply''"
      and reg = ?reg and writer = ?w and dest = "[]" and kwargs = True and p = "''out.ply''"]
  note u = t [where file_format = None]
  have 1: "check_block ?nn (example_block ''polygon5'' 5) = None"
    using u [where b = "example_block ''polygon5'' 5" and n = 5 and k = 0 and mesh = ?M]
      p py_int_examples
    by (simp add: ct)
  have 2: "\<exists>err. check_block ?nn (example_block ''polygon5'' 4) = Some err \<and> is_WriteError err"
    using u [where b = "example_block ''polygon5'' 4" and n = 5 and k = 0 and mesh = ?M]
      p py_int_examples
    by (simp add: ct)
  have 3: "\<exists>err. check_block ?nn (example_block ''polygonal'' 5) = Some err \<and> is_ValueError err"
    using u [where b = "example_block ''polygonal'' 5" and n = 5 and k = 0 and mesh = ?M]
      p py_int_examples
    by (simp add: ct)
  have m: "\<exists>err. check_block ?nn (example_block (''polygon5'' @ [CHR 0x1C]) 5) = Some err \<and>
              is_ValueError err"
    using u [where b = "example_block (''polygon5'' @ [CHR 0x1C]) 5" and n = 5 and k = 0
        and mesh = ?M] p py_int_examples
    by (simp add: ct)
  have 4: "\<exists>err. check_block ?nn (example_block ''quad'' 5) = Some err \<and> is_WriteError err"
    using u [where b = "example_block ''quad'' 5" and n = 5 and k = 4 and mesh = ?M] p nn
    by (simp add: ct)
  have 5: "check_block ?nn (example_block ''quad'' 4) = None"
    using u [where b = "example_block ''quad'' 4" and n = 5 and k = 4 and mesh = ?M] p nn
    by (simp add: ct)
  have 6: "check_block ?nn (example_block ''customXYZ'' 7) = None"
    using u [where b = "example_block ''customXYZ'' 7" and n = 5 and k = 4 and mesh = ?M] p nn
    by (simp add: ct)
  have w: "writer_map ?reg ''ply'' = Some ?w"
    by (simp add: register_def empty_registry_def)
  have r: "filetype_from_path (extension_to_filetype ?reg) ''out.ply'' = Inr ''ply''"
    by (rule resolve_out_ply)
  have q: "check_block ?nn (example_block ''quad'' 5)
           = Some (WriteError ''Unexpected cells array shape for quad cells.'')"
    by (simp add: check_block_def ct)
  have 7: "meshio_write ?nn ?reg (Buffer []) ?M (Some ''ply'') True
           = Inl (WriteError ''Unexpected cells array shape for quad cells.'')"
    using u [where b = "example_block ''quad'' 4" and n = 5 and k = 4 and mesh = ?M] w
    by (simp add: example_mesh_def 1 q)
  have 8: "meshio_write ?nn ?reg (Path ''out.ply'') ?M' (Some ''ply'') True
           = Inr [example_block ''polygon5'' 5, example_block ''customXYZ'' 7]"
    using u [where b = "example_block ''quad'' 4" and n = 5 and k = 4 and mesh = ?M'] w
    by (simp add: example_mesh_def 1 6)
  have 9: "meshio_write ?nn ?reg (Path ''out.ply'') ?M None True
           = Inl (WriteError ''Unexpected cells array shape for quad cells.'')"
    using u [where b = "example_block ''quad'' 4" and n = 5 and k = 4 and mesh = ?M] w r
    by (simp add: example_mesh_def 1 q)
  have 10: "meshio_write ?nn ?reg (Path ''out.ply'') ?M' (Some []) True
           = Inr [example_block ''polygon5'' 5, example_block ''customXYZ'' 7]"
    using t [where file_format = "Some []" and b = "example_block ''quad'' 4" and n = 5 and k = 4
        and mesh = ?M'] w r
    by (simp add: example_mesh_def 1 6)
  from p py_int_examples nn 1 2 3 m 4 5 6 7 8 r 9 10 show ?thesis by blast
qed
section \<open>The writer: narrowing, the comparison of dtypes, and the blocks it skips\<close>

lemma dtypes_equal_iff: "dtypes_equal d bs \<longleftrightarrow> (\<forall>b\<in>set bs. dtype (data b) = d)"
  by (induction bs) auto

lemma face_header_cells:
  "fst (snd (snd (write_face_header blocks)))
   = (if 0 < count_cells blocks then cast_down blocks else blocks)"
  by (simp add: write_face_header_def Let_def split: list.splits option.splits)

lemma face_header_warnings:
  "fst (snd (write_face_header blocks))
   = (if 0 < count_cells blocks \<and> has_cast blocks then [cast_warning] else [])"
  by (simp add: write_face_header_def Let_def split: list.splits option.splits)

lemma face_header_mixed:
  assumes "0 < count_cells blocks" "c1 \<in> set (cast_down blocks)" "c2 \<in> set (cast_down blocks)"
    "dtype (data c1) \<noteq> dtype (data c2)"
  shows "snd (snd (snd (write_face_header blocks))) = Some (WriteError [])"
proof -
  obtain c cs where b: "cast_down blocks = c # cs"
    using assms(2) by (cases "cast_down blocks") auto
  have "dtype (data c1) \<noteq> dtype (data c) \<or> dtype (data c2) \<noteq> dtype (data c)"
    using assms(4) by auto
  then have "\<not> (\<forall>b\<in>set (cast_down blocks). dtype (data b) = dtype (data c))"
    using assms(2,3) by blast
  then have "\<not> dtypes_equal (dtype (data c)) (cast_down blocks)"
    by (simp add: dtypes_equal_iff)
  then show ?thesis
    using assms(1) b by (simp add: write_face_header_def Let_def)
qed

lemma face_header_no_cells:
  assumes "count_cells blocks = 0"
  shows "write_face_header blocks = ([], [], blocks, None)"
  using assms by (simp add: write_face_header_def)

lemma point_data_warnings:
  "w \<in> set (fst (snd (write_point_data items))) \<Longrightarrow> w ! 4 = CHR ''w''"
  by (induction items rule: write_point_data.induct) (auto split: prod.splits option.splits)

lemma cast_warning_4: "cast_warning ! 4 = CHR ''d''"
  by (simp add: cast_warning_def)

lemma cast_warning_not_point_data:
  "cast_warning \<notin> set (fst (snd (write_point_data items)))"
  using point_data_warnings [of cast_warning items] cast_warning_4 by auto

lemma binary_cells_warnings:
  "set (fst (snd (write_binary_cells e blocks))) \<subseteq> {skip_warning}"
  by (induction blocks) (auto split: prod.splits sum.splits)

lemma skip_warning_neq: "skip_warning \<noteq> cast_warning"
  by (simp add: skip_warning_def cast_warning_def)

lemma binary_body_warnings:
  "set (fst (snd (write_binary_body e pts pd blocks))) \<subseteq> {skip_warning}"
  using binary_cells_warnings [of e blocks]
  by (auto simp: write_binary_body_def split: prod.splits sum.splits)

lemma ascii_body_warnings: "fst (snd (write_ascii_body env pts pd blocks)) = []"
  by (simp add: write_ascii_body_def split: sum.splits)

lemma body_no_cast_warning:
  "cast_warning \<notin> set (fst (snd (if binary then write_binary_body e pts pd blocks
                                    else write_ascii_body env pts pd blocks)))"
  using binary_body_warnings [of e pts pd blocks] skip_warning_neq
  by (auto simp: ascii_body_warnings)

lemma ply_write_cells_after:
  assumes "vertex_header_error mesh = None"
  shows "cells_after (ply_write env mesh binary)
         = (if 0 < count_cells (cells mesh) then cast_down (cells mesh) else cells mesh)"
proof -
  obtain out1 where d: "write_dims (dtype (points mesh)) [0..<shape1 (points mesh)] = (out1, None)"
    using assms by (auto simp: vertex_header_error_def split: prod.splits option.splits)
  obtain out2 warns2 pd where p: "write_point_data (point_data mesh) = (out2, warns2, pd, None)"
    using assms d by (auto simp: vertex_header_error_def split: prod.splits option.splits)
  obtain out3 warns3 blocks err3 where f: "write_face_header (cells mesh) = (out3, warns3, blocks, err3)"
    by (cases "write_face_header (cells mesh)") auto
  have b: "blocks = (if 0 < count_cells (cells mesh) then cast_down (cells mesh) else cells mesh)"
    using face_header_cells [of "cells mesh"] f by simp
  show ?thesis
    unfolding ply_write_def Let_def d p f b [symmetric]
    by (simp split: prod.splits option.splits)
qed

lemma ply_write_warnings:
  assumes "vertex_header_error mesh = None"
  shows "count_list (warnings (ply_write env mesh binary)) cast_warning
         = (if 0 < count_cells (cells mesh) \<and> has_cast (cells mesh) then 1 else 0)"
proof -
  obtain out1 where d: "write_dims (dtype (points mesh)) [0..<shape1 (points mesh)] = (out1, None)"
    using assms by (auto simp: vertex_header_error_def split: prod.splits option.splits)
  obtain out2 warns2 pd where p: "write_point_data (point_data mesh) = (out2, warns2, pd, None)"
    using assms d by (auto simp: vertex_header_error_def split: prod.splits option.splits)
  obtain out3 warns3 blocks err3 where f: "write_face_header (cells mesh) = (out3, warns3, blocks, err3)"
    by (cases "write_face_header (cells mesh)") auto
  have w3: "warns3 = (if 0 < count_cells (cells mesh) \<and> has_cast (cells mesh) then [cast_warning] else [])"
    using face_header_warnings [of "cells mesh"] f by simp
  have w2: "count_list warns2 cast_warning = 0"
    using cast_warning_not_point_data [of "point_data mesh"] p by simp
  obtain out5 warns5 err5 where
    body: "(if binary then write_binary_body (sys_byteorder env) (points mesh) pd blocks
            else write_ascii_body env (points mesh) pd blocks) = (out5, warns5, err5)"
    by (cases "if binary then write_binary_body (sys_byteorder env) (points mesh) pd blocks
            else write_ascii_body env (points mesh) pd blocks") auto
  have w5: "count_list warns5 cast_warning = 0"
    using body_no_cast_warning [of binary "sys_byteorder env" "points mesh" pd blocks env] body
    by simp
  have "warnings (ply_write env mesh binary)
        = (case err3 of Some err \<Rightarrow> warns2 @ warns3 | None \<Rightarrow> warns2 @ warns3 @ warns5)"
  proof (cases binary)
    case True
    with body have "write_binary_body (sys_byteorder env) (points mesh) pd blocks
                    = (out5, warns5, err5)" by simp
    with True show ?thesis
      unfolding ply_write_def Let_def d p f by (simp split: option.splits)
  next
    case False
    with body have "write_ascii_body env (points mesh) pd blocks = (out5, warns5, err5)" by simp
    with False show ?thesis
      unfolding ply_write_def Let_def d p f by (simp split: option.splits)
  qed
  then show ?thesis
    using w2 w5 by (simp add: w3 split: option.splits)
qed

lemma ply_write_mixed:
  assumes "vertex_header_error mesh = None" "0 < count_cells (cells mesh)"
    "c1 \<in> set (cast_down (cells mesh))" "c2 \<in> set (cast_down (cells mesh))"
    "dtype (data c1) \<noteq> dtype (data c2)"
  shows "raised (ply_write env mesh binary) = Some (WriteError [])"
proof -
  obtain out1 where d: "write_dims (dtype (points mesh)) [0..<shape1 (points mesh)] = (out1, None)"
    using assms(1) by (auto simp: vertex_header_error_def split: prod.splits option.splits)
  obtain out2 warns2 pd where p: "write_point_data (point_data mesh) = (out2, warns2, pd, None)"
    using assms(1) d by (auto simp: vertex_header_error_def split: prod.splits option.splits)
  obtain out3 warns3 blocks err3 where f: "write_face_header (cells mesh) = (out3, warns3, blocks, err3)"
    by (cases "write_face_header (cells mesh)") auto
  have "err3 = Some (WriteError [])"
    using face_header_mixed [OF assms(2-5)] f by simp
  then show ?thesis
    unfolding ply_write_def Let_def d p f by simp
qed

lemma columns_nonempty: "0 < shape1 a \<Longrightarrow> columns a \<noteq> []"
  by (simp add: columns_def)

lemma columns_lengths: "(d, xs) \<in> set (columns a) \<Longrightarrow> length xs = shape0 a"
  by (auto simp: columns_def shape0_def)

lemma fromarrays_same_length:
  assumes "arrays \<noteq> []" "\<forall>(d, xs)\<in>set arrays. length xs = n"
  shows "fromarrays arrays
         = Inr (map (\<lambda>i. map (\<lambda>(d, ys). (d, ys ! i)) arrays) [0..<n])"
proof -
  obtain d xs rest where a: "arrays = (d, xs) # rest"
    using assms(1) by (cases arrays) auto
  have x: "length xs = n" using assms(2) a by simp
  have "\<not> list_ex (\<lambda>(d', ys). length ys \<noteq> length xs) rest"
    using assms(2) a x by (auto simp: list_ex_iff)
  then show ?thesis by (simp add: fromarrays_def a x)
qed

lemma fromarrays_columns:
  assumes "0 < shape1 a"
  shows "fromarrays (columns a)
         = Inr (map (\<lambda>i. map (\<lambda>(d, ys). (d, ys ! i)) (columns a)) [0..<shape0 a])"
  by (rule fromarrays_same_length) (use assms columns_lengths in \<open>auto simp: columns_nonempty\<close>)

lemma fromarrays_count_columns:
  "fromarrays ((UInt8, replicate (shape0 a) w) # columns a)
   = Inr (map (\<lambda>i. map (\<lambda>(d, ys). (d, ys ! i)) ((UInt8, replicate (shape0 a) w) # columns a))
            [0..<shape0 a])"
  by (rule fromarrays_same_length) (use columns_lengths in auto)

lemma write_binary_cells_no_error: "snd (snd (write_binary_cells e blocks)) = None"
  by (induction blocks) (auto simp: fromarrays_count_columns split: prod.splits)

lemma write_binary_body_no_error:
  assumes "0 < shape1 pts"
  shows "snd (snd (write_binary_body e pts [] blocks)) = None"
  using write_binary_cells_no_error [of e blocks]
  by (auto simp: write_binary_body_def fromarrays_columns [OF assms] split: prod.splits)

lemma ply_write_no_faces_binary:
  assumes "vertex_header_error mesh = None" "count_cells (cells mesh) = 0"
    "point_data mesh = []" "0 < shape1 (points mesh)"
  shows "raised (ply_write env mesh True) = None"
proof -
  obtain out1 where d: "write_dims (dtype (points mesh)) [0..<shape1 (points mesh)] = (out1, None)"
    using assms(1) by (auto simp: vertex_header_error_def split: prod.splits option.splits)
  have f: "write_face_header (cells mesh) = ([], [], cells mesh, None)"
    using assms(2) by (rule face_header_no_cells)
  obtain out5 warns5 where
    b: "write_binary_body (sys_byteorder env) (points mesh) [] (cells mesh) = (out5, warns5, None)"
    using write_binary_body_no_error [OF assms(4), of "sys_byteorder env" "cells mesh"]
    by (cases "write_binary_body (sys_byteorder env) (points mesh) [] (cells mesh)") auto
  show ?thesis
    unfolding ply_write_def Let_def d f by (simp add: assms(3) b)
qed

lemma upt_3: "[0..<3] = [0, 1, 2]"
  by (simp add: upt_rec)

lemma write_dims_3:
  assumes "type_name_table d = Some type_name"
  shows "write_dims d [0..<3]
         = (line (''property '' @ type_name @ '' x'') @ line (''property '' @ type_name @ '' y'')
            @ line (''property '' @ type_name @ '' z''), None)"
  using assms by (simp add: upt_3 dim_names_def)

lemma example_header_ok: "vertex_header_error (mesh_of blocks) = None"
  by (simp add: vertex_header_error_def mesh_of_def example_points_def upt_3 dim_names_def)

lemma write_ascii_body_no_error:
  assumes "0 < shape1 pts" "0 < shape0 pts"
  shows "snd (snd (write_ascii_body env pts [] blocks)) = None"
  using assms by (simp add: write_ascii_body_def fromarrays_columns)

lemma ply_write_no_faces_ascii:
  assumes "vertex_header_error mesh = None" "count_cells (cells mesh) = 0"
    "point_data mesh = []" "0 < shape1 (points mesh)" "0 < shape0 (points mesh)"
  shows "raised (ply_write env mesh False) = None"
proof -
  obtain out1 where d: "write_dims (dtype (points mesh)) [0..<shape1 (points mesh)] = (out1, None)"
    using assms(1) by (auto simp: vertex_header_error_def split: prod.splits option.splits)
  have f: "write_face_header (cells mesh) = ([], [], cells mesh, None)"
    using assms(2) by (rule face_header_no_cells)
  obtain out5 warns5 where
    b: "write_ascii_body env (points mesh) [] (cells mesh) = (out5, warns5, None)"
    using write_ascii_body_no_error [OF assms(4,5), of env "cells mesh"]
    by (cases "write_ascii_body env (points mesh) [] (cells mesh)") auto
  show ?thesis
    unfolding ply_write_def Let_def d f by (simp add: assms(3) b)
qed

lemma counts_as_face_examples:
  "counts_as_face ''triangle''" "counts_as_face ''quad''" "\<not> counts_as_face ''tetra''"
  by code_simp+

lemma example_mesh_facts:
  "cells (mesh_of blocks) = blocks" "point_data (mesh_of blocks) = []"
  "shape1 (points (mesh_of blocks)) = 3" "shape0 (points (mesh_of blocks)) = 4"
  by (simp_all add: mesh_of_def example_points_def shape0_def)

lemma block_facts:
  "cell_type (block tag d rows) = tag" "dtype (data (block tag d rows)) = d"
  "shape0 (data (block tag d rows)) = length rows"
  by (simp_all add: block_def shape0_def)

text \<open>
  Claim C4, amended. When the writer gets as far as the cells (the coordinate and point-data
  properties were written without an exception) and the mesh has at least one row in a block
  whose tag has a count, so that a face element is written, then two blocks of the mesh whose
  index dtypes still differ after the narrowing to 32 bits end the call with a WriteError.
\<close>

theorem mixed_index_dtypes_fatal:
  assumes "vertex_header_error mesh = None" "0 < count_cells (cells mesh)"
    "c1 \<in> set (cast_down (cells mesh))" "c2 \<in> set (cast_down (cells mesh))"
    "dtype (data c1) \<noteq> dtype (data c2)"
  shows "raised (ply_write env mesh binary) = Some (WriteError [])"
  using assms by (rule ply_write_mixed)

theorem mixed_index_dtypes_fatal_witness:
  "vertex_header_error
     (mesh_of [block ''triangle'' Int32 [[0, 1, 2]], block ''quad'' UInt8 [[0, 1, 2, 3]]]) = None \<and>
   0 < count_cells
     (cells (mesh_of [block ''triangle'' Int32 [[0, 1, 2]], block ''quad'' UInt8 [[0, 1, 2, 3]]])) \<and>
   block ''triangle'' Int32 [[0, 1, 2]] \<in> set (cast_down
     (cells (mesh_of [block ''triangle'' Int32 [[0, 1, 2]], block ''quad'' UInt8 [[0, 1, 2, 3]]]))) \<and>
   block ''quad'' UInt8 [[0, 1, 2, 3]] \<in> set (cast_down
     (cells (mesh_of [block ''triangle'' Int32 [[0, 1, 2]], block ''quad'' UInt8 [[0, 1, 2, 3]]]))) \<and>
   dtype (data (block ''triangle'' Int32 [[0, 1, 2]])) \<noteq> dtype (data (block ''quad'' UInt8 [[0, 1, 2, 3]])) \<and>
   raised (ply_write example_env
     (mesh_of [block ''triangle'' Int32 [[0, 1, 2]], block ''quad'' UInt8 [[0, 1, 2, 3]]]) True)
   = Some (WriteError [])"
proof -
  let ?b1 = "block ''triangle'' Int32 [[0, 1, 2]]"
  let ?b2 = "block ''quad'' UInt8 [[0, 1, 2, 3]]"
  let ?M = "mesh_of [?b1, ?b2]"
  have h: "vertex_header_error ?M = None" by (rule example_header_ok)
  have n: "0 < count_cells (cells ?M)"
    by (simp add: example_mesh_facts block_facts counts_as_face_examples)
  have c: "cast_down (cells ?M) = [?b1, ?b2]"
    by (simp add: example_mesh_facts cast_down_def block_facts)
  have m1: "?b1 \<in> set (cast_down (cells ?M))" and m2: "?b2 \<in> set (cast_down (cells ?M))"
    by (simp_all only: c list.set insert_iff simp_thms)
  have d: "dtype (data ?b1) \<noteq> dtype (data ?b2)" by (simp add: block_facts)
  from mixed_index_dtypes_fatal [OF h n m1 m2 d, of example_env True] h n m1 m2 d
  show ?thesis by blast
qed

text \<open>
  Claim C4 as stated: a mesh whose two blocks have different index dtypes after the
  narrowing, and whose write does not fail. The tags of the blocks have no count, no face
  element is written and the dtypes are never compared, in binary and in ASCII mode.
\<close>

theorem mixed_index_dtypes_counterexample:
  "cast_down (cells (mesh_of [block ''tetra'' Int32 [[0, 1, 2, 3]], block ''tetra'' UInt8 [[0, 1, 2, 3]]]))
     = [block ''tetra'' Int32 [[0, 1, 2, 3]], block ''tetra'' UInt8 [[0, 1, 2, 3]]] \<and>
   dtype (data (block ''tetra'' Int32 [[0, 1, 2, 3]])) \<noteq> dtype (data (block ''tetra'' UInt8 [[0, 1, 2, 3]])) \<and>
   raised (ply_write example_env
     (mesh_of [block ''tetra'' Int32 [[0, 1, 2, 3]], block ''tetra'' UInt8 [[0, 1, 2, 3]]]) True) = None \<and>
   raised (ply_write example_env
     (mesh_of [block ''tetra'' Int32 [[0, 1, 2, 3]], block ''tetra'' UInt8 [[0, 1, 2, 3]]]) False) = None"
proof -
  let ?b1 = "block ''tetra'' Int32 [[0, 1, 2, 3]]"
  let ?b2 = "block ''tetra'' UInt8 [[0, 1, 2, 3]]"
  let ?M = "mesh_of [?b1, ?b2]"
  have h: "vertex_header_error ?M = None" by (rule example_header_ok)
  have n: "count_cells (cells ?M) = 0"
    by (simp add: example_mesh_facts block_facts counts_as_face_examples)
  have c: "cast_down (cells ?M) = [?b1, ?b2]"
    by (simp add: example_mesh_facts cast_down_def block_facts)
  have d: "dtype (data ?b1) \<noteq> dtype (data ?b2)" by (simp add: block_facts)
  have r1: "raised (ply_write example_env ?M True) = None"
    by (rule ply_write_no_faces_binary [OF h n]) (simp_all add: example_mesh_facts)
  have r2: "raised (ply_write example_env ?M False) = None"
    by (rule ply_write_no_faces_ascii [OF h n]) (simp_all add: example_mesh_facts)
  from c d r1 r2 show ?thesis by blast
qed

lemma ascii_unrecognized_written:
  "written (ply_write example_env
     (mesh_of [block ''triangle'' Int32 [[0, 1, 2]], block ''tetra'' Int32 [[0, 1, 2, 3]]]) False)
   = ''ply\<newline>format ascii 1.0\<newline>comment Created by meshio v4.0.16, 2020-06-01T12:00:00.000000\<newline>element vertex 4\<newline>property double x\<newline>property double y\<newline>property double z\<newline>element face 1\<newline>property list uint8 int32 vertex_indices\<newline>end_header\<newline>0.0 0.0 0.0\<newline>1.0 0.0 0.0\<newline>0.0 1.0 0.0\<newline>0.0 0.0 1.0\<newline>3 0 1 2\<newline>4 0 1 2 3\<newline>''"
  by code_simp

lemma ascii_unrecognized_warnings:
  "warnings (ply_write example_env
     (mesh_of [block ''triangle'' Int32 [[0, 1, 2]], block ''tetra'' Int32 [[0, 1, 2, 3]]]) False) = []"
  by code_simp

lemma ascii_unrecognized_raised:
  "raised (ply_write example_env
     (mesh_of [block ''triangle'' Int32 [[0, 1, 2]], block ''tetra'' Int32 [[0, 1, 2, 3]]]) False) = None"
  by code_simp

lemma tetra_unrecognized: "cell_type_to_count ''tetra'' = None"
  by code_simp

text \<open>
  Claim C8 at a mesh with a triangle block and a block tagged \<open>tetra\<close>, which has no count,
  written in ASCII mode: the row of the \<open>tetra\<close> block is written after the header that
  announces one face, and no warning is raised.
\<close>

theorem ascii_writes_unrecognized_block:
  "cell_type_to_count ''tetra'' = None \<and>
   written (ply_write example_env
     (mesh_of [block ''triangle'' Int32 [[0, 1, 2]], block ''tetra'' Int32 [[0, 1, 2, 3]]]) False)
   = ''ply\<newline>format ascii 1.0\<newline>comment Created by meshio v4.0.16, 2020-06-01T12:00:00.000000\<newline>element vertex 4\<newline>property double x\<newline>property double y\<newline>property double z\<newline>element face 1\<newline>property list uint8 int32 vertex_indices\<newline>end_header\<newline>0.0 0.0 0.0\<newline>1.0 0.0 0.0\<newline>0.0 1.0 0.0\<newline>0.0 0.0 1.0\<newline>3 0 1 2\<newline>4 0 1 2 3\<newline>'' \<and>
   warnings (ply_write example_env
     (mesh_of [block ''triangle'' Int32 [[0, 1, 2]], block ''tetra'' Int32 [[0, 1, 2, 3]]]) False) = [] \<and>
   raised (ply_write example_env
     (mesh_of [block ''triangle'' Int32 [[0, 1, 2]], block ''tetra'' Int32 [[0, 1, 2, 3]]]) False) = None"
  using tetra_unrecognized ascii_unrecognized_written ascii_unrecognized_warnings
    ascii_unrecognized_raised
  by (intro conjI)

end
